theory Spec2Isabelle
  imports Complex_Main
begin

section \<open>Enumerations (pyawg/enums.py)\<close>

text \<open>
  Every class of \<^verbatim>\<open>enums.py\<close> is a plain \<^verbatim>\<open>Enum\<close>; a member has a name (used when the
  member itself is formatted) and a value (the wire token, \<^verbatim>\<open>member.value\<close>).
\<close>

datatype AmplitudeUnit = VPP | VRMS | DBM

datatype FrequencyUnit = HZ | KHZ | MHZ

datatype Polarity = NORMAL | INVERTED

datatype BurstModeRigol = TRIGGERED | INFINITY | GATED

datatype BurstModeSiglent = NCYC | GATE

datatype BurstTriggerSource = INTERNAL | EXTERNAL | MANUAL

datatype WaveformType = SINE | SQUARE | RAMP | PULSE | NOISE | DC | ARB

text \<open>
  Modelled from the spec: the enumeration \<^verbatim>\<open>OutputLoad\<close>. Both vendor modules import it from
  \<^verbatim>\<open>enums.py\<close>, whose source does not declare it. The spec calls it a symbolic set including
  an infinite/high-impedance sentinel; the two members the code names, \<^verbatim>\<open>OutputLoad.HZ\<close> and
  \<^verbatim>\<open>OutputLoad.INF\<close>, are the members modelled (as a plain \<^verbatim>\<open>Enum\<close>, like its siblings). The
  constructors carry a prefix because \<^verbatim>\<open>HZ\<close> is a member of \<^verbatim>\<open>FrequencyUnit\<close> already and
  \<^verbatim>\<open>INF\<close> is a reserved word of the term language.
\<close>

datatype OutputLoad = Load_HZ | Load_INF

fun AmplitudeUnit_value :: "AmplitudeUnit \<Rightarrow> string" where
  "AmplitudeUnit_value VPP = ''VPP''"
| "AmplitudeUnit_value VRMS = ''VRMS''"
| "AmplitudeUnit_value DBM = ''DBM''"

fun FrequencyUnit_value :: "FrequencyUnit \<Rightarrow> string" where
  "FrequencyUnit_value HZ = ''HZ''"
| "FrequencyUnit_value KHZ = ''KHZ''"
| "FrequencyUnit_value MHZ = ''MHZ''"

fun Polarity_value :: "Polarity \<Rightarrow> string" where
  "Polarity_value NORMAL = ''NORM''"
| "Polarity_value INVERTED = ''INVT''"

fun BurstModeRigol_value :: "BurstModeRigol \<Rightarrow> string" where
  "BurstModeRigol_value TRIGGERED = ''TRIG''"
| "BurstModeRigol_value INFINITY = ''INF''"
| "BurstModeRigol_value GATED = ''GAT''"

fun BurstModeSiglent_value :: "BurstModeSiglent \<Rightarrow> string" where
  "BurstModeSiglent_value NCYC = ''NCYC''"
| "BurstModeSiglent_value GATE = ''GATE''"

fun BurstTriggerSource_value :: "BurstTriggerSource \<Rightarrow> string" where
  "BurstTriggerSource_value INTERNAL = ''INT''"
| "BurstTriggerSource_value EXTERNAL = ''EXT''"
| "BurstTriggerSource_value MANUAL = ''MAN''"

fun WaveformType_value :: "WaveformType \<Rightarrow> string" where
  "WaveformType_value SINE = ''SIN''"
| "WaveformType_value SQUARE = ''SQU''"
| "WaveformType_value RAMP = ''RAMP''"
| "WaveformType_value PULSE = ''PULS''"
| "WaveformType_value NOISE = ''NOIS''"
| "WaveformType_value DC = ''DC''"
| "WaveformType_value ARB = ''ARB''"

fun AmplitudeUnit_name :: "AmplitudeUnit \<Rightarrow> string" where
  "AmplitudeUnit_name VPP = ''VPP''"
| "AmplitudeUnit_name VRMS = ''VRMS''"
| "AmplitudeUnit_name DBM = ''DBM''"

fun FrequencyUnit_name :: "FrequencyUnit \<Rightarrow> string" where
  "FrequencyUnit_name HZ = ''HZ''"
| "FrequencyUnit_name KHZ = ''KHZ''"
| "FrequencyUnit_name MHZ = ''MHZ''"

fun Polarity_name :: "Polarity \<Rightarrow> string" where
  "Polarity_name NORMAL = ''NORMAL''"
| "Polarity_name INVERTED = ''INVERTED''"

fun BurstModeRigol_name :: "BurstModeRigol \<Rightarrow> string" where
  "BurstModeRigol_name TRIGGERED = ''TRIGGERED''"
| "BurstModeRigol_name INFINITY = ''INFINITY''"
| "BurstModeRigol_name GATED = ''GATED''"

fun BurstModeSiglent_name :: "BurstModeSiglent \<Rightarrow> string" where
  "BurstModeSiglent_name NCYC = ''NCYC''"
| "BurstModeSiglent_name GATE = ''GATE''"

fun BurstTriggerSource_name :: "BurstTriggerSource \<Rightarrow> string" where
  "BurstTriggerSource_name INTERNAL = ''INTERNAL''"
| "BurstTriggerSource_name EXTERNAL = ''EXTERNAL''"
| "BurstTriggerSource_name MANUAL = ''MANUAL''"

fun WaveformType_name :: "WaveformType \<Rightarrow> string" where
  "WaveformType_name SINE = ''SINE''"
| "WaveformType_name SQUARE = ''SQUARE''"
| "WaveformType_name RAMP = ''RAMP''"
| "WaveformType_name PULSE = ''PULSE''"
| "WaveformType_name NOISE = ''NOISE''"
| "WaveformType_name DC = ''DC''"
| "WaveformType_name ARB = ''ARB''"

fun OutputLoad_name :: "OutputLoad \<Rightarrow> string" where
  "OutputLoad_name Load_HZ = ''HZ''"
| "OutputLoad_name Load_INF = ''INF''"


section \<open>Python values\<close>

text \<open>
  A Python \<^verbatim>\<open>float\<close> is a finite number, an infinity or a NaN. A finite float is
  represented by the real number it denotes, so the comparisons of the code (which Python
  evaluates exactly, also between an \<^verbatim>\<open>int\<close> and a \<^verbatim>\<open>float\<close>) are the comparisons of the
  reals. Rounding is not represented: what a float prints as and the product of a float and
  an \<^verbatim>\<open>int\<close> are taken from the runtime (record \<open>runtime\<close> below).
\<close>

datatype pyfloat = Fin real | PosInf | NegInf | NaN

text \<open>
  The methods are dynamically typed and inspect the type of what they receive, so an
  argument is a tagged value: a number, a \<^verbatim>\<open>bool\<close>, a \<^verbatim>\<open>str\<close>, \<^verbatim>\<open>None\<close> or a member of one of
  the enumerations.
\<close>

datatype pyval =
    PInt int
  | PFloat pyfloat
  | PBool bool
  | PStr string
  | PNone
  | PAmplitudeUnit AmplitudeUnit
  | PFrequencyUnit FrequencyUnit
  | PPolarity Polarity
  | PBurstModeRigol BurstModeRigol
  | PBurstModeSiglent BurstModeSiglent
  | PBurstTriggerSource BurstTriggerSource
  | PWaveformType WaveformType
  | POutputLoad OutputLoad

record runtime =
  float_str :: "pyfloat \<Rightarrow> string"
  float_mul :: "pyfloat \<Rightarrow> int \<Rightarrow> pyfloat"
  py_repr :: "pyval \<Rightarrow> string"

text \<open>\<^verbatim>\<open>type(x) is int\<close> and \<^verbatim>\<open>type(x) is float\<close>: exact type identity.\<close>

fun type_is_int :: "pyval \<Rightarrow> bool" where
  "type_is_int (PInt i) = True"
| "type_is_int v = False"

fun type_is_float :: "pyval \<Rightarrow> bool" where
  "type_is_float (PFloat f) = True"
| "type_is_float v = False"

text \<open>\<^verbatim>\<open>x == k\<close> for an integer literal \<open>k\<close>.\<close>

fun py_eq_int :: "pyval \<Rightarrow> int \<Rightarrow> bool" where
  "py_eq_int (PInt i) k = (i = k)"
| "py_eq_int (PBool b) k = ((if b then 1 else 0) = k)"
| "py_eq_int (PFloat (Fin r)) k = (r = real_of_int k)"
| "py_eq_int v k = False"

text \<open>
  The number an \<^verbatim>\<open>int\<close> or \<^verbatim>\<open>float\<close> denotes; \<open>None\<close> exactly when
  \<^verbatim>\<open>type(x) is not float and type(x) is not int\<close>.
\<close>

fun as_number :: "pyval \<Rightarrow> pyfloat option" where
  "as_number (PInt i) = Some (Fin (real_of_int i))"
| "as_number (PFloat f) = Some f"
| "as_number v = None"

text \<open>\<^verbatim>\<open>a <= b\<close>, \<^verbatim>\<open>a < b\<close> and \<^verbatim>\<open>abs(a)\<close> on numbers; every comparison with a NaN is false.\<close>

fun num_le :: "pyfloat \<Rightarrow> pyfloat \<Rightarrow> bool" where
  "num_le NaN b = False"
| "num_le a NaN = False"
| "num_le NegInf b = True"
| "num_le a PosInf = True"
| "num_le (Fin a) (Fin b) = (a \<le> b)"
| "num_le (Fin a) NegInf = False"
| "num_le PosInf b = False"

fun num_lt :: "pyfloat \<Rightarrow> pyfloat \<Rightarrow> bool" where
  "num_lt NaN b = False"
| "num_lt a NaN = False"
| "num_lt PosInf b = False"
| "num_lt a NegInf = False"
| "num_lt (Fin a) (Fin b) = (a < b)"
| "num_lt NegInf b = True"
| "num_lt (Fin a) PosInf = True"

fun num_abs :: "pyfloat \<Rightarrow> pyfloat" where
  "num_abs (Fin a) = Fin \<bar>a\<bar>"
| "num_abs PosInf = PosInf"
| "num_abs NegInf = PosInf"
| "num_abs NaN = NaN"


section \<open>String formatting\<close>

definition apostrophe :: char where
  "apostrophe = CHR 0x27"

definition degree_sign :: char where
  "degree_sign = CHR 0xB0"

definition quoted :: "string \<Rightarrow> string" where
  "quoted s = apostrophe # s @ [apostrophe]"

definition digit_char :: "nat \<Rightarrow> char" where
  "digit_char d = ''0123456789'' ! d"

fun str_nat :: "nat \<Rightarrow> string" where
  "str_nat n = (if n < 10 then [digit_char n] else str_nat (n div 10) @ [digit_char (n mod 10)])"

declare str_nat.simps [simp del]

definition str_int :: "int \<Rightarrow> string" where
  "str_int i = (if i < 0 then CHR ''-'' # str_nat (nat (- i)) else str_nat (nat i))"

text \<open>What \<^verbatim>\<open>{x}\<close> inside an f-string expands to.\<close>

fun fmt :: "runtime \<Rightarrow> pyval \<Rightarrow> string" where
  "fmt rt (PInt i) = str_int i"
| "fmt rt (PFloat f) = float_str rt f"
| "fmt rt (PBool b) = (if b then ''True'' else ''False'')"
| "fmt rt (PStr s) = s"
| "fmt rt PNone = ''None''"
| "fmt rt (PAmplitudeUnit u) = ''AmplitudeUnit.'' @ AmplitudeUnit_name u"
| "fmt rt (PFrequencyUnit u) = ''FrequencyUnit.'' @ FrequencyUnit_name u"
| "fmt rt (PPolarity p) = ''Polarity.'' @ Polarity_name p"
| "fmt rt (PBurstModeRigol m) = ''BurstModeRigol.'' @ BurstModeRigol_name m"
| "fmt rt (PBurstModeSiglent m) = ''BurstModeSiglent.'' @ BurstModeSiglent_name m"
| "fmt rt (PBurstTriggerSource s) = ''BurstTriggerSource.'' @ BurstTriggerSource_name s"
| "fmt rt (PWaveformType w) = ''WaveformType.'' @ WaveformType_name w"
| "fmt rt (POutputLoad l) = ''OutputLoad.'' @ OutputLoad_name l"

text \<open>What \<^verbatim>\<open>{type(x)}\<close> inside an f-string expands to.\<close>

fun type_str :: "pyval \<Rightarrow> string" where
  "type_str (PInt i) = ''<class '' @ quoted ''int'' @ ''>''"
| "type_str (PFloat f) = ''<class '' @ quoted ''float'' @ ''>''"
| "type_str (PBool b) = ''<class '' @ quoted ''bool'' @ ''>''"
| "type_str (PStr s) = ''<class '' @ quoted ''str'' @ ''>''"
| "type_str PNone = ''<class '' @ quoted ''NoneType'' @ ''>''"
| "type_str (PAmplitudeUnit u) = ''<enum '' @ quoted ''AmplitudeUnit'' @ ''>''"
| "type_str (PFrequencyUnit u) = ''<enum '' @ quoted ''FrequencyUnit'' @ ''>''"
| "type_str (PPolarity p) = ''<enum '' @ quoted ''Polarity'' @ ''>''"
| "type_str (PBurstModeRigol m) = ''<enum '' @ quoted ''BurstModeRigol'' @ ''>''"
| "type_str (PBurstModeSiglent m) = ''<enum '' @ quoted ''BurstModeSiglent'' @ ''>''"
| "type_str (PBurstTriggerSource s) = ''<enum '' @ quoted ''BurstTriggerSource'' @ ''>''"
| "type_str (PWaveformType w) = ''<enum '' @ quoted ''WaveformType'' @ ''>''"
| "type_str (POutputLoad l) = ''<enum '' @ quoted ''OutputLoad'' @ ''>''"


section \<open>Exceptions, the transport and what a call does\<close>

text \<open>
  Modelled from the spec: the exception \<^verbatim>\<open>InvalidChannelNumber\<close> of \<^verbatim>\<open>exceptions.py\<close>, a
  module absent from the sources (the spec's InvalidChannel, for a channel outside 1 and 2);
  the methods raise it with the offending channel. \<open>TypeError\<close>, \<open>ValueError\<close>,
  \<open>IndexError\<close> and \<open>KeyError\<close> are Python's own. \<open>TransportFailure\<close> stands for whatever
  \<^verbatim>\<open>Exception\<close> the transport raises and carries its text (\<^verbatim>\<open>str(e)\<close>).
\<close>

datatype exn =
    InvalidChannelNumber pyval
  | TypeError string
  | ValueError string
  | IndexError string
  | KeyError pyval
  | TransportFailure string

text \<open>
  Modelled from the spec: the base class \<^verbatim>\<open>AWG\<close> (\<^verbatim>\<open>base.py\<close>, absent from the sources),
  the transport the spec describes as \<^verbatim>\<open>write(command: text) -> void\<close> and
  \<^verbatim>\<open>query(command: text) -> text\<close>, both of which may fail (the fields are
  prefixed because \<^verbatim>\<open>write\<close> is a reserved word here). \<open>awg_write self c = Some e\<close> means
  the write of command \<open>c\<close> raises an exception with text \<open>e\<close>; \<open>awg_query self c = Inl e\<close>
  likewise, and \<open>Inr r\<close> is the response \<open>r\<close>.
\<close>

record AWG =
  awg_write :: "string \<Rightarrow> string option"
  awg_query :: "string \<Rightarrow> string + string"

datatype tcall = Write string | Query string

datatype loglevel = DEBUG | ERROR

text \<open>
  What a method call does: it returns a value or raises (\<open>result\<close>), hands commands to the
  transport (\<open>calls\<close>, in order) and emits log records (\<open>logged\<close>, in order).
\<close>

record outcome =
  result :: "exn + pyval"
  calls :: "tcall list"
  logged :: "(loglevel \<times> string) list"

definition raise :: "exn \<Rightarrow> outcome" where
  "raise e = \<lparr>result = Inl e, calls = [], logged = []\<rparr>"

text \<open>
  The block every setter ends in,
  \<^verbatim>\<open>try: self.write(command); logging.debug(done) except Exception as e: logging.error(f"{failed}: {e}")\<close>,
  where \<open>reraise\<close> tells whether the handler ends in a bare \<^verbatim>\<open>raise\<close>. Without it the method
  falls off its end and returns \<^verbatim>\<open>None\<close>.
\<close>

definition try_write :: "AWG \<Rightarrow> string \<Rightarrow> string \<Rightarrow> string \<Rightarrow> bool \<Rightarrow> outcome" where
  "try_write self command done failed reraise =
     (case awg_write self command of
        None \<Rightarrow>
          \<lparr>result = Inr PNone, calls = [Write command], logged = [(DEBUG, done)]\<rparr>
      | Some e \<Rightarrow>
          \<lparr>result = (if reraise then Inl (TransportFailure e) else Inr PNone),
           calls = [Write command],
           logged = [(ERROR, failed @ '': '' @ e)]\<rparr>)"

text \<open>\<^verbatim>\<open>type(channel) is not int or not (channel == 1 or channel == 2)\<close>\<close>

definition bad_channel :: "pyval \<Rightarrow> bool" where
  "bad_channel channel =
     (\<not> type_is_int channel \<or> \<not> (py_eq_int channel 1 \<or> py_eq_int channel 2))"

definition must_be_float_or_int :: "string \<Rightarrow> pyval \<Rightarrow> string" where
  "must_be_float_or_int name v =
     quoted name @ '' must be float or int; received '' @ type_str v"

definition must_be_bool :: "string \<Rightarrow> pyval \<Rightarrow> string" where
  "must_be_bool name v = quoted name @ '' must be bool; received '' @ type_str v"

definition must_be_enum_have_you :: "string \<Rightarrow> string \<Rightarrow> string \<Rightarrow> string" where
  "must_be_enum_have_you name enum hint =
     quoted name @ '' must be enum of type '' @ enum
       @ ''. Hint: have you forgotten to import '' @ quoted hint @ '' from '' @ quoted ''pyawg'' @ ''?''"

definition must_be_enum_did_you :: "string \<Rightarrow> string \<Rightarrow> string \<Rightarrow> string" where
  "must_be_enum_did_you name enum hint =
     quoted name @ '' must be enum of type '' @ enum
       @ ''. Hint: did you forget to import '' @ quoted hint @ '' from '' @ quoted ''pyawg'' @ ''?''"

definition state_str :: "bool \<Rightarrow> string" where
  "state_str state = (if state then ''ON'' else ''OFF'')"


section \<open>class RigolDG1000Z (pyawg/rigol.py)\<close>

text \<open>
  Each method checks its arguments in an \<^verbatim>\<open>if\<close>/\<^verbatim>\<open>elif\<close> chain of \<^verbatim>\<open>raise\<close> statements and
  then formats one command and writes it. A parameter the source compares as a number is
  read through \<open>as_number\<close>, which is \<open>None\<close> exactly where the source's type test raises.
  A test \<^verbatim>\<open>isinstance(x, E)\<close> or \<^verbatim>\<open>type(state) is not bool\<close> is a \<open>case\<close> on the tag of the
  value; its catch-all branch is the \<^verbatim>\<open>raise\<close> of the source.
\<close>

definition rigol_set_amplitude :: "runtime \<Rightarrow> AWG \<Rightarrow> pyval \<Rightarrow> pyval \<Rightarrow> pyval \<Rightarrow> outcome" where
  "rigol_set_amplitude rt self channel amplitude unit =
     (if bad_channel channel then raise (InvalidChannelNumber channel)
      else case as_number amplitude of
        None \<Rightarrow> raise (TypeError (must_be_float_or_int ''amplitude'' amplitude))
      | Some a \<Rightarrow>
          if \<not> (num_le (Fin (- 10)) a \<and> num_le a (Fin 10))
          then raise (ValueError (quoted ''amplitude'' @ '' must be between -/+ 10''))
          else (case unit of
            PAmplitudeUnit u \<Rightarrow>
              try_write self
                (''SOUR'' @ fmt rt channel @ '':VOLT '' @ fmt rt amplitude @ AmplitudeUnit_value u)
                (''Channel '' @ fmt rt channel @ '' amplitude set to '' @ fmt rt amplitude
                   @ AmplitudeUnit_value u)
                (''Failed to set channel '' @ fmt rt channel @ '' amplitude to ''
                   @ fmt rt amplitude @ AmplitudeUnit_value u)
                True
          | _ \<Rightarrow>
              raise (TypeError
                (must_be_enum_have_you ''unit'' ''AmplitudeUnit'' ''AmplitudeType''))))"

definition rigol_set_burst_delay :: "runtime \<Rightarrow> AWG \<Rightarrow> pyval \<Rightarrow> pyval \<Rightarrow> outcome" where
  "rigol_set_burst_delay rt self channel delay =
     (if bad_channel channel then raise (InvalidChannelNumber channel)
      else case as_number delay of
        None \<Rightarrow> raise (TypeError (must_be_float_or_int ''delay'' delay))
      | Some d \<Rightarrow>
          if num_lt d (Fin 0)
          then raise (ValueError (quoted ''delay'' @ '' cannot be negative''))
          else
            try_write self
              (''SOUR'' @ fmt rt channel @ '':BURS:TDEL '' @ fmt rt delay)
              (''Channel '' @ fmt rt channel @ '' burst delay has been set to '' @ fmt rt delay)
              (''Failed to set channel '' @ fmt rt channel @ '' burst delay to '' @ fmt rt delay)
              False)"

definition rigol_set_burst_mode :: "runtime \<Rightarrow> AWG \<Rightarrow> pyval \<Rightarrow> pyval \<Rightarrow> outcome" where
  "rigol_set_burst_mode rt self channel burst_mode =
     (if bad_channel channel then raise (InvalidChannelNumber channel)
      else case burst_mode of
        PBurstModeRigol m \<Rightarrow>
          try_write self
            (''SOUR'' @ fmt rt channel @ '':BURS:MODE '' @ BurstModeRigol_value m)
            (''Channel '' @ fmt rt channel @ '' burst mode has been set to ''
               @ BurstModeRigol_value m)
            (''Failed to set channel '' @ fmt rt channel @ '' burst mode to ''
               @ BurstModeRigol_value m)
            False
      | _ \<Rightarrow>
          raise (TypeError
            (must_be_enum_have_you ''burst_mode'' ''BurstModeRigol'' ''BurstModeRigol'')))"

definition rigol_set_burst_period :: "runtime \<Rightarrow> AWG \<Rightarrow> pyval \<Rightarrow> pyval \<Rightarrow> outcome" where
  "rigol_set_burst_period rt self channel period =
     (if bad_channel channel then raise (InvalidChannelNumber channel)
      else case as_number period of
        None \<Rightarrow> raise (TypeError (must_be_float_or_int ''period'' period))
      | Some p \<Rightarrow>
          if num_lt p (Fin 0)
          then raise (ValueError (quoted ''period'' @ '' cannot be negative''))
          else
            try_write self
              (''SOUR'' @ fmt rt channel @ '':BURS:INT:PER '' @ fmt rt period)
              (''Channel '' @ fmt rt channel @ '' burst period has been set to '' @ fmt rt period)
              (''Failed to set channel '' @ fmt rt channel @ '' burst period to '' @ fmt rt period)
              False)"

definition rigol_set_burst_state :: "runtime \<Rightarrow> AWG \<Rightarrow> pyval \<Rightarrow> pyval \<Rightarrow> outcome" where
  "rigol_set_burst_state rt self channel state =
     (if bad_channel channel then raise (InvalidChannelNumber channel)
      else case state of
        PBool b \<Rightarrow>
          try_write self
            (''SOUR'' @ fmt rt channel @ '':BURS '' @ state_str b)
            (''Channel '' @ fmt rt channel @ '' burst state has been set to '' @ state_str b)
            (''Failed to set channel '' @ fmt rt channel @ '' burst state to '' @ state_str b)
            False
      | _ \<Rightarrow> raise (TypeError (must_be_bool ''state'' state)))"

definition rigol_set_burst_trigger_source :: "runtime \<Rightarrow> AWG \<Rightarrow> pyval \<Rightarrow> pyval \<Rightarrow> outcome" where
  "rigol_set_burst_trigger_source rt self channel trigger_source =
     (if bad_channel channel then raise (InvalidChannelNumber channel)
      else case trigger_source of
        PBurstTriggerSource s \<Rightarrow>
          try_write self
            (''SOUR'' @ fmt rt channel @ '':BURS:TRIG:SOUR '' @ BurstTriggerSource_value s)
            (''Channel '' @ fmt rt channel @ '' burst trigger source has been set to ''
               @ BurstTriggerSource_value s)
            (''Failed to set channel '' @ fmt rt channel @ '' burst trigger source to ''
               @ BurstTriggerSource_value s)
            False
      | _ \<Rightarrow>
          raise (TypeError
            (must_be_enum_have_you ''trigger_source'' ''BurstTriggerSource''
               ''BurstTriggerSource'')))"

definition rigol_set_frequency :: "runtime \<Rightarrow> AWG \<Rightarrow> pyval \<Rightarrow> pyval \<Rightarrow> pyval \<Rightarrow> outcome" where
  "rigol_set_frequency rt self channel frequency unit =
     (if bad_channel channel then raise (InvalidChannelNumber channel)
      else case as_number frequency of
        None \<Rightarrow> raise (TypeError (must_be_float_or_int ''frequency'' frequency))
      | Some f \<Rightarrow>
          if num_lt f (Fin 0)
          then raise (ValueError (quoted ''frequency'' @ '' cannot be negative''))
          else (case unit of
            PFrequencyUnit u \<Rightarrow>
              try_write self
                (''SOUR'' @ fmt rt channel @ '':FREQ '' @ fmt rt frequency @ FrequencyUnit_value u)
                (''Channel '' @ fmt rt channel @ '' frequency set to '' @ fmt rt frequency
                   @ FrequencyUnit_value u)
                (''Failed to set channel '' @ fmt rt channel @ '' frequency to ''
                   @ fmt rt frequency @ FrequencyUnit_value u)
                True
          | _ \<Rightarrow>
              raise (TypeError
                (must_be_enum_did_you ''unit'' ''FrequencyUnit'' ''FrequencyUnit''))))"

definition rigol_set_offset :: "runtime \<Rightarrow> AWG \<Rightarrow> pyval \<Rightarrow> pyval \<Rightarrow> outcome" where
  "rigol_set_offset rt self channel offset_voltage =
     (if bad_channel channel then raise (InvalidChannelNumber channel)
      else case as_number offset_voltage of
        None \<Rightarrow> raise (TypeError (must_be_float_or_int ''offset_voltage'' offset_voltage))
      | Some v \<Rightarrow>
          try_write self
            (''SOUR'' @ fmt rt channel @ '':VOLT:OFFS '' @ fmt rt offset_voltage)
            (''Channel '' @ fmt rt channel @ '' offset voltage set to '' @ fmt rt offset_voltage
               @ '' Vdc'')
            (''Failed to set channel '' @ fmt rt channel @ '' offset voltage to ''
               @ fmt rt offset_voltage @ '' Vdc'')
            True)"

definition rigol_set_output :: "runtime \<Rightarrow> AWG \<Rightarrow> pyval \<Rightarrow> pyval \<Rightarrow> outcome" where
  "rigol_set_output rt self channel state =
     (if bad_channel channel then raise (InvalidChannelNumber channel)
      else case state of
        PBool b \<Rightarrow>
          try_write self
            (''OUTP'' @ fmt rt channel @ '' '' @ state_str b)
            (''Channel '' @ fmt rt channel @ '' output has been set to '' @ state_str b)
            (''Failed to set channel '' @ fmt rt channel @ '' output to '' @ state_str b)
            False
      | _ \<Rightarrow> raise (TypeError (must_be_bool ''state'' state)))"

text \<open>
  \<^verbatim>\<open>isinstance(load, OutputLoad)\<close>, and the message of the \<^verbatim>\<open>TypeError\<close> that
  \<^verbatim>\<open>set_output_load\<close> raises (the same text in both classes).
\<close>

fun is_OutputLoad :: "pyval \<Rightarrow> bool" where
  "is_OutputLoad (POutputLoad l) = True"
| "is_OutputLoad v = False"

definition load_type_error :: "pyval \<Rightarrow> string" where
  "load_type_error load =
     quoted ''load'' @ '' must be float or int or enum of type OutputLoad; received ''
       @ type_str load @ ''. Hint: did you forget to import '' @ quoted ''OutputLoad''
       @ '' from '' @ quoted ''pyawg'' @ ''?''"

definition rigol_set_output_load :: "runtime \<Rightarrow> AWG \<Rightarrow> pyval \<Rightarrow> pyval \<Rightarrow> outcome" where
  "rigol_set_output_load rt self channel load =
     (if bad_channel channel then raise (InvalidChannelNumber channel)
      else if \<not> type_is_float load \<and> \<not> type_is_int load \<and> \<not> is_OutputLoad load
      then raise (TypeError (load_type_error load))
      else
        let load = (if load = POutputLoad Load_HZ \<or> load = POutputLoad Load_INF
                    then PStr ''INF'' else load)
        in try_write self
             (''OUTP'' @ fmt rt channel @ '':LOAD '' @ fmt rt load)
             (''Channel '' @ fmt rt channel @ '' output load has been set to '' @ fmt rt load)
             (''Failed to set channel '' @ fmt rt channel @ '' output load to '' @ fmt rt load)
             False)"

definition rigol_set_phase :: "runtime \<Rightarrow> AWG \<Rightarrow> pyval \<Rightarrow> pyval \<Rightarrow> outcome" where
  "rigol_set_phase rt self channel phase =
     (if bad_channel channel then raise (InvalidChannelNumber channel)
      else case as_number phase of
        None \<Rightarrow> raise (TypeError (must_be_float_or_int ''phase'' phase))
      | Some p \<Rightarrow>
          if \<not> (num_le (Fin 0) (num_abs p) \<and> num_le (num_abs p) (Fin 360))
          then raise (ValueError (quoted ''phase'' @ '' must be between 0 and 360''))
          else
            try_write self
              (''SOUR'' @ fmt rt channel @ '':PHAS '' @ fmt rt phase)
              (''Channel '' @ fmt rt channel @ '' phase set to '' @ fmt rt phase @ [degree_sign])
              (''Failed to set channel '' @ fmt rt channel @ '' phase to '' @ fmt rt phase
                 @ [degree_sign])
              True)"

definition rigol_set_waveform :: "runtime \<Rightarrow> AWG \<Rightarrow> pyval \<Rightarrow> pyval \<Rightarrow> outcome" where
  "rigol_set_waveform rt self channel waveform_type =
     (if bad_channel channel then raise (InvalidChannelNumber channel)
      else case waveform_type of
        PWaveformType w \<Rightarrow>
          try_write self
            (''SOUR'' @ fmt rt channel @ '':FUNC '' @ WaveformType_value w)
            (''Channel '' @ fmt rt channel @ '' waveform set to '' @ WaveformType_value w)
            (''Failed to set channel '' @ fmt rt channel @ '' waveform to ''
               @ WaveformType_value w)
            True
      | _ \<Rightarrow>
          raise (TypeError
            (must_be_enum_have_you ''waveform_type'' ''WaveformType'' ''WaveformType'')))"

definition rigol_sync_phase :: "runtime \<Rightarrow> AWG \<Rightarrow> pyval \<Rightarrow> outcome" where
  "rigol_sync_phase rt self channel =
     (if bad_channel channel then raise (InvalidChannelNumber channel)
      else
        try_write self
          (''SOUR'' @ fmt rt channel @ '':PHAS:SYNC'')
          ''Phases of both the channels have been synchronized''
          ''Failed to synchronize phase''
          True)"

definition rigol_trigger_burst :: "runtime \<Rightarrow> AWG \<Rightarrow> pyval \<Rightarrow> outcome" where
  "rigol_trigger_burst rt self channel =
     (if bad_channel channel then raise (InvalidChannelNumber channel)
      else
        try_write self
          (''SOUR'' @ fmt rt channel @ '':BURS:TRIG'')
          (''Burst on channel '' @ fmt rt channel @ '' has been successfully triggered'')
          (''Failed to trigger the burst on channel '' @ fmt rt channel)
          False)"


section \<open>class SiglentSDG1000X (pyawg/siglent.py)\<close>

subsection \<open>The query parser\<close>

text \<open>\<^verbatim>\<open>s.split(c)\<close> for a one-character separator: never empty, one more piece than separators.\<close>

fun split_on :: "char \<Rightarrow> string \<Rightarrow> string list" where
  "split_on c [] = [[]]"
| "split_on c (x # xs) =
     (if x = c then [] # split_on c xs
      else (case split_on c xs of
              [] \<Rightarrow> [[x]]
            | piece # pieces \<Rightarrow> (x # piece) # pieces))"

text \<open>\<^verbatim>\<open>s.strip("'")\<close>: the apostrophes at both ends are dropped.\<close>

definition strip_apostrophes :: "string \<Rightarrow> string" where
  "strip_apostrophes s =
     rev (dropWhile (\<lambda>c. c = apostrophe) (rev (dropWhile (\<lambda>c. c = apostrophe) s)))"

text \<open>The slices \<^verbatim>\<open>xs[::2]\<close> and \<^verbatim>\<open>xs[1::2]\<close>.\<close>

fun slice_even :: "'a list \<Rightarrow> 'a list" where
  "slice_even [] = []"
| "slice_even [x] = [x]"
| "slice_even (x # y # zs) = x # slice_even zs"

fun slice_odd :: "'a list \<Rightarrow> 'a list" where
  "slice_odd [] = []"
| "slice_odd [x] = []"
| "slice_odd (x # y # zs) = y # slice_odd zs"

text \<open>\<^verbatim>\<open>dict(pairs)\<close>: the pairs are inserted in order, so a later pair replaces an earlier one.\<close>

definition dict :: "('k \<times> 'v) list \<Rightarrow> ('k \<rightharpoonup> 'v)" where
  "dict kvs = fold (\<lambda>(k, v) m. m(k \<mapsto> v)) kvs Map.empty"

text \<open>What \<^verbatim>\<open>params.get(key)\<close> returns as a Python value: the string, or \<^verbatim>\<open>None\<close>.\<close>

fun str_or_None :: "string option \<Rightarrow> pyval" where
  "str_or_None None = PNone"
| "str_or_None (Some s) = PStr s"

text \<open>
  The handler of \<^verbatim>\<open>get_channel_wave_parameter\<close> logs the exception and raises it again.
  \<^verbatim>\<open>str(e)\<close> is the text of a transport failure, Python's fixed text for an \<^verbatim>\<open>IndexError\<close>
  on a list, and the \<^verbatim>\<open>repr\<close> of the key for a \<^verbatim>\<open>KeyError\<close>.
\<close>

fun exn_str :: "runtime \<Rightarrow> exn \<Rightarrow> string" where
  "exn_str rt (TransportFailure e) = e"
| "exn_str rt (IndexError m) = m"
| "exn_str rt (KeyError k) = py_repr rt k"
| "exn_str rt (TypeError m) = m"
| "exn_str rt (ValueError m) = m"
| "exn_str rt (InvalidChannelNumber c) = fmt rt c"

definition log_and_reraise :: "runtime \<Rightarrow> string \<Rightarrow> exn \<Rightarrow> outcome" where
  "log_and_reraise rt command e =
     \<lparr>result = Inl e, calls = [Query command],
      logged = [(ERROR, ''Failed to retrieve parameter and/or its value: '' @ exn_str rt e)]\<rparr>"

definition siglent_get_channel_wave_parameter ::
    "runtime \<Rightarrow> AWG \<Rightarrow> pyval \<Rightarrow> pyval \<Rightarrow> outcome" where
  "siglent_get_channel_wave_parameter rt self channel parameter =
     (let command = ''C'' @ fmt rt channel @ ''BSWV?'' in
      case awg_query self command of
        Inl e \<Rightarrow> log_and_reraise rt command (TransportFailure e)
      | Inr answer \<Rightarrow>
          (case split_on CHR '' '' answer of
             first # response # rest \<Rightarrow>
               (let params = dict (zip (slice_even (split_on CHR '','' (strip_apostrophes response)))
                                       (slice_odd (split_on CHR '','' (strip_apostrophes response))));
                    result_dict =
                      [(''waveform_type'', params ''WVTP''),
                       (''frequency'', params ''FRQ''),
                       (''period'', params ''PERI''),
                       (''amplitude'', params ''AMP''),
                       (''offset'', params ''OFST''),
                       (''high_level'', params ''HLEV''),
                       (''low_level'', params ''LLEV''),
                       (''phase'', params ''PHSE'')]
                in case parameter of
                     PStr p \<Rightarrow>
                       (case map_of result_dict p of
                          Some v \<Rightarrow>
                            \<lparr>result = Inr (str_or_None v), calls = [Query command], logged = []\<rparr>
                        | None \<Rightarrow> log_and_reraise rt command (KeyError parameter))
                   | _ \<Rightarrow> log_and_reraise rt command (KeyError parameter))
           | _ \<Rightarrow> log_and_reraise rt command (IndexError ''list index out of range'')))"

subsection \<open>The setters\<close>

definition siglent_set_amplitude :: "runtime \<Rightarrow> AWG \<Rightarrow> pyval \<Rightarrow> pyval \<Rightarrow> pyval \<Rightarrow> outcome" where
  "siglent_set_amplitude rt self channel amplitude unit =
     (if bad_channel channel then raise (InvalidChannelNumber channel)
      else case as_number amplitude of
        None \<Rightarrow> raise (TypeError (must_be_float_or_int ''amplitude'' amplitude))
      | Some a \<Rightarrow>
          if \<not> (num_le (Fin (- 10)) a \<and> num_le a (Fin 10))
          then raise (ValueError (quoted ''amplitude'' @ '' must be between -/+ 10''))
          else (case unit of
            PAmplitudeUnit u \<Rightarrow>
              try_write self
                (''C'' @ fmt rt channel @ '':BSWV AMP,'' @ fmt rt amplitude)
                (''Channel '' @ fmt rt channel @ '' amplitude set to '' @ fmt rt amplitude)
                (''Failed to set channel '' @ fmt rt channel @ '' amplitude to ''
                   @ fmt rt amplitude @ AmplitudeUnit_value u)
                True
          | _ \<Rightarrow>
              raise (TypeError
                (must_be_enum_have_you ''unit'' ''AmplitudeUnit'' ''AmplitudeType''))))"

definition siglent_set_burst_delay :: "runtime \<Rightarrow> AWG \<Rightarrow> pyval \<Rightarrow> pyval \<Rightarrow> outcome" where
  "siglent_set_burst_delay rt self channel delay =
     (if bad_channel channel then raise (InvalidChannelNumber channel)
      else case as_number delay of
        None \<Rightarrow> raise (TypeError (must_be_float_or_int ''delay'' delay))
      | Some d \<Rightarrow>
          if num_lt d (Fin 0)
          then raise (ValueError (quoted ''delay'' @ '' cannot be negative''))
          else
            try_write self
              (''C'' @ fmt rt channel @ '':BTWV DEL,'' @ fmt rt delay)
              (''Channel '' @ fmt rt channel @ '' burst delay has been set to '' @ fmt rt delay)
              (''Failed to set channel '' @ fmt rt channel @ '' burst delay to '' @ fmt rt delay)
              False)"

definition siglent_set_burst_mode :: "runtime \<Rightarrow> AWG \<Rightarrow> pyval \<Rightarrow> pyval \<Rightarrow> outcome" where
  "siglent_set_burst_mode rt self channel burst_mode =
     (if bad_channel channel then raise (InvalidChannelNumber channel)
      else case burst_mode of
        PBurstModeSiglent m \<Rightarrow>
          try_write self
            (''C'' @ fmt rt channel @ '':BTWV GATE_NCYC,'' @ BurstModeSiglent_value m)
            (''Channel '' @ fmt rt channel @ '' burst mode has been set to ''
               @ BurstModeSiglent_value m)
            (''Failed to set channel '' @ fmt rt channel @ '' burst mode to ''
               @ BurstModeSiglent_value m)
            False
      | _ \<Rightarrow>
          raise (TypeError
            (must_be_enum_have_you ''burst_mode'' ''BurstModeSiglent'' ''BurstModeSiglent'')))"

definition siglent_set_burst_period :: "runtime \<Rightarrow> AWG \<Rightarrow> pyval \<Rightarrow> pyval \<Rightarrow> outcome" where
  "siglent_set_burst_period rt self channel period =
     (if bad_channel channel then raise (InvalidChannelNumber channel)
      else case as_number period of
        None \<Rightarrow> raise (TypeError (must_be_float_or_int ''period'' period))
      | Some p \<Rightarrow>
          if num_lt p (Fin 0)
          then raise (ValueError (quoted ''period'' @ '' cannot be negative''))
          else
            try_write self
              (''C'' @ fmt rt channel @ '':BTWV PRD,'' @ fmt rt period)
              (''Channel '' @ fmt rt channel @ '' burst period has been set to '' @ fmt rt period)
              (''Failed to set channel '' @ fmt rt channel @ '' burst period to '' @ fmt rt period)
              False)"

definition siglent_set_burst_state :: "runtime \<Rightarrow> AWG \<Rightarrow> pyval \<Rightarrow> pyval \<Rightarrow> outcome" where
  "siglent_set_burst_state rt self channel state =
     (if bad_channel channel then raise (InvalidChannelNumber channel)
      else case state of
        PBool b \<Rightarrow>
          try_write self
            (''C'' @ fmt rt channel @ '':BTWV STATE,'' @ state_str b)
            (''Channel '' @ fmt rt channel @ '' burst state has been set to '' @ state_str b)
            (''Failed to set channel '' @ fmt rt channel @ '' burst state to '' @ state_str b)
            False
      | _ \<Rightarrow> raise (TypeError (must_be_bool ''state'' state)))"

definition siglent_set_burst_trigger_source ::
    "runtime \<Rightarrow> AWG \<Rightarrow> pyval \<Rightarrow> pyval \<Rightarrow> outcome" where
  "siglent_set_burst_trigger_source rt self channel trigger_source =
     (if bad_channel channel then raise (InvalidChannelNumber channel)
      else case trigger_source of
        PBurstTriggerSource s \<Rightarrow>
          try_write self
            (''C'' @ fmt rt channel @ '':BTWV TRSR,'' @ BurstTriggerSource_value s)
            (''Channel '' @ fmt rt channel @ '' burst trigger source has been set to ''
               @ BurstTriggerSource_value s)
            (''Failed to set channel '' @ fmt rt channel @ '' burst trigger source to ''
               @ BurstTriggerSource_value s)
            False
      | _ \<Rightarrow>
          raise (TypeError
            (must_be_enum_have_you ''trigger_source'' ''BurstTriggerSource''
               ''BurstTriggerSource'')))"

text \<open>
  \<^verbatim>\<open>frequency * k\<close> for an integer literal \<open>k\<close>. It is only evaluated after the type test, on an
  \<^verbatim>\<open>int\<close> (exact) or a \<^verbatim>\<open>float\<close> (the runtime's rounded product).
\<close>

fun times_int :: "runtime \<Rightarrow> pyval \<Rightarrow> int \<Rightarrow> pyval" where
  "times_int rt (PInt i) k = PInt (i * k)"
| "times_int rt (PFloat f) k = PFloat (float_mul rt f k)"
| "times_int rt v k = v"

definition siglent_set_frequency :: "runtime \<Rightarrow> AWG \<Rightarrow> pyval \<Rightarrow> pyval \<Rightarrow> pyval \<Rightarrow> outcome" where
  "siglent_set_frequency rt self channel frequency unit =
     (if bad_channel channel then raise (InvalidChannelNumber channel)
      else case as_number frequency of
        None \<Rightarrow> raise (TypeError (must_be_float_or_int ''frequency'' frequency))
      | Some f \<Rightarrow>
          if num_lt f (Fin 0)
          then raise (ValueError (quoted ''frequency'' @ '' cannot be negative''))
          else (case unit of
            PFrequencyUnit u \<Rightarrow>
              (let converted_frequency =
                     (if u = KHZ then times_int rt frequency 1000
                      else if u = MHZ then times_int rt frequency 1000000
                      else frequency)
               in try_write self
                    (''C'' @ fmt rt channel @ '':BSWV FRQ,'' @ fmt rt converted_frequency)
                    (''Channel '' @ fmt rt channel @ '' frequency set to '' @ fmt rt frequency
                       @ FrequencyUnit_value u @ '' (converted to ''
                       @ fmt rt converted_frequency @ '' Hz)'')
                    (''Failed to set channel '' @ fmt rt channel @ '' frequency to ''
                       @ fmt rt frequency @ FrequencyUnit_value u)
                    True)
          | _ \<Rightarrow>
              raise (TypeError
                (must_be_enum_did_you ''unit'' ''FrequencyUnit'' ''FrequencyUnit''))))"

definition siglent_set_offset :: "runtime \<Rightarrow> AWG \<Rightarrow> pyval \<Rightarrow> pyval \<Rightarrow> outcome" where
  "siglent_set_offset rt self channel offset_voltage =
     (if bad_channel channel then raise (InvalidChannelNumber channel)
      else case as_number offset_voltage of
        None \<Rightarrow> raise (TypeError (must_be_float_or_int ''offset_voltage'' offset_voltage))
      | Some v \<Rightarrow>
          try_write self
            (''C'' @ fmt rt channel @ '':BSWV OFST,'' @ fmt rt offset_voltage)
            (''Channel '' @ fmt rt channel @ '' offset voltage set to '' @ fmt rt offset_voltage
               @ '' Vdc'')
            (''Failed to set channel '' @ fmt rt channel @ '' offset voltage to ''
               @ fmt rt offset_voltage @ '' Vdc'')
            True)"

definition siglent_set_output :: "runtime \<Rightarrow> AWG \<Rightarrow> pyval \<Rightarrow> pyval \<Rightarrow> outcome" where
  "siglent_set_output rt self channel state =
     (if bad_channel channel then raise (InvalidChannelNumber channel)
      else case state of
        PBool b \<Rightarrow>
          try_write self
            (''C'' @ fmt rt channel @ '':OUTP '' @ state_str b)
            (''Channel '' @ fmt rt channel @ '' output has been set to '' @ state_str b)
            (''Failed to set channel '' @ fmt rt channel @ '' output to '' @ state_str b)
            False
      | _ \<Rightarrow> raise (TypeError (must_be_bool ''state'' state)))"

definition siglent_set_output_load :: "runtime \<Rightarrow> AWG \<Rightarrow> pyval \<Rightarrow> pyval \<Rightarrow> outcome" where
  "siglent_set_output_load rt self channel load =
     (if bad_channel channel then raise (InvalidChannelNumber channel)
      else if \<not> type_is_float load \<and> \<not> type_is_int load \<and> \<not> is_OutputLoad load
      then raise (TypeError (load_type_error load))
      else
        let load = (if load = POutputLoad Load_HZ \<or> load = POutputLoad Load_INF
                    then PStr ''HZ'' else load)
        in try_write self
             (''C'' @ fmt rt channel @ '':OUTP LOAD,'' @ fmt rt load)
             (''Channel '' @ fmt rt channel @ '' output load has been set to '' @ fmt rt load)
             (''Failed to set channel '' @ fmt rt channel @ '' output load to '' @ fmt rt load)
             False)"

definition siglent_set_phase :: "runtime \<Rightarrow> AWG \<Rightarrow> pyval \<Rightarrow> pyval \<Rightarrow> outcome" where
  "siglent_set_phase rt self channel phase =
     (if bad_channel channel then raise (InvalidChannelNumber channel)
      else case as_number phase of
        None \<Rightarrow> raise (TypeError (must_be_float_or_int ''phase'' phase))
      | Some p \<Rightarrow>
          if \<not> (num_le (Fin 0) (num_abs p) \<and> num_le (num_abs p) (Fin 360))
          then raise (ValueError (quoted ''phase'' @ '' must be between 0 and 360''))
          else
            try_write self
              (''C'' @ fmt rt channel @ '':BSWV PHSE,'' @ fmt rt phase)
              (''Channel '' @ fmt rt channel @ '' phase set to '' @ fmt rt phase @ [degree_sign])
              (''Failed to set channel '' @ fmt rt channel @ '' phase to '' @ fmt rt phase
                 @ [degree_sign])
              True)"

definition siglent_set_waveform :: "runtime \<Rightarrow> AWG \<Rightarrow> pyval \<Rightarrow> pyval \<Rightarrow> outcome" where
  "siglent_set_waveform rt self channel waveform_type =
     (if bad_channel channel then raise (InvalidChannelNumber channel)
      else case waveform_type of
        PWaveformType w \<Rightarrow>
          try_write self
            (''C'' @ fmt rt channel @ '':BSWV WVTP,'' @ WaveformType_value w)
            (''Channel '' @ fmt rt channel @ '' waveform set to '' @ WaveformType_value w)
            (''Failed to set channel '' @ fmt rt channel @ '' waveform to ''
               @ WaveformType_value w)
            True
      | _ \<Rightarrow>
          raise (TypeError
            (must_be_enum_have_you ''waveform_type'' ''WaveformType'' ''WaveformType'')))"

text \<open>\<^verbatim>\<open>sync_phase\<close> of this class has no check of its (unused) parameter \<^verbatim>\<open>_channel\<close>.\<close>

definition siglent_sync_phase :: "runtime \<Rightarrow> AWG \<Rightarrow> pyval \<Rightarrow> outcome" where
  "siglent_sync_phase rt self channel =
     try_write self
       ''EQPHASE''
       ''Phases of both the channels have been synchronized''
       ''Failed to synchronize phase''
       True"

definition siglent_trigger_burst :: "runtime \<Rightarrow> AWG \<Rightarrow> pyval \<Rightarrow> outcome" where
  "siglent_trigger_burst rt self channel =
     (if bad_channel channel then raise (InvalidChannelNumber channel)
      else
        try_write self
          (''C'' @ fmt rt channel @ '':BTWV MTRIG'')
          (''Burst on channel '' @ fmt rt channel @ '' has been successfully triggered'')
          (''Failed to trigger the burst on channel '' @ fmt rt channel)
          False)"


section \<open>The public operations of the two classes\<close>

text \<open>
  A call names a method and gives its arguments, the channel first. \<open>invoke\<close> runs it on an
  instance of one of the two classes; the result is \<open>None\<close> for the one method that
  \<^verbatim>\<open>RigolDG1000Z\<close> does not define.
\<close>

datatype call =
    get_channel_wave_parameter pyval pyval
  | set_amplitude pyval pyval pyval
  | set_burst_delay pyval pyval
  | set_burst_mode pyval pyval
  | set_burst_period pyval pyval
  | set_burst_state pyval pyval
  | set_burst_trigger_source pyval pyval
  | set_frequency pyval pyval pyval
  | set_offset pyval pyval
  | set_output pyval pyval
  | set_output_load pyval pyval
  | set_phase pyval pyval
  | set_waveform pyval pyval
  | sync_phase pyval
  | trigger_burst pyval

fun channel_of :: "call \<Rightarrow> pyval" where
  "channel_of (get_channel_wave_parameter channel parameter) = channel"
| "channel_of (set_amplitude channel amplitude unit) = channel"
| "channel_of (set_burst_delay channel delay) = channel"
| "channel_of (set_burst_mode channel burst_mode) = channel"
| "channel_of (set_burst_period channel period) = channel"
| "channel_of (set_burst_state channel state) = channel"
| "channel_of (set_burst_trigger_source channel trigger_source) = channel"
| "channel_of (set_frequency channel frequency unit) = channel"
| "channel_of (set_offset channel offset_voltage) = channel"
| "channel_of (set_output channel state) = channel"
| "channel_of (set_output_load channel load) = channel"
| "channel_of (set_phase channel phase) = channel"
| "channel_of (set_waveform channel waveform_type) = channel"
| "channel_of (sync_phase channel) = channel"
| "channel_of (trigger_burst channel) = channel"

fun rigol :: "runtime \<Rightarrow> AWG \<Rightarrow> call \<Rightarrow> outcome option" where
  "rigol rt self (get_channel_wave_parameter channel parameter) = None"
| "rigol rt self (set_amplitude channel amplitude unit) =
     Some (rigol_set_amplitude rt self channel amplitude unit)"
| "rigol rt self (set_burst_delay channel delay) =
     Some (rigol_set_burst_delay rt self channel delay)"
| "rigol rt self (set_burst_mode channel burst_mode) =
     Some (rigol_set_burst_mode rt self channel burst_mode)"
| "rigol rt self (set_burst_period channel period) =
     Some (rigol_set_burst_period rt self channel period)"
| "rigol rt self (set_burst_state channel state) =
     Some (rigol_set_burst_state rt self channel state)"
| "rigol rt self (set_burst_trigger_source channel trigger_source) =
     Some (rigol_set_burst_trigger_source rt self channel trigger_source)"
| "rigol rt self (set_frequency channel frequency unit) =
     Some (rigol_set_frequency rt self channel frequency unit)"
| "rigol rt self (set_offset channel offset_voltage) =
     Some (rigol_set_offset rt self channel offset_voltage)"
| "rigol rt self (set_output channel state) =
     Some (rigol_set_output rt self channel state)"
| "rigol rt self (set_output_load channel load) =
     Some (rigol_set_output_load rt self channel load)"
| "rigol rt self (set_phase channel phase) =
     Some (rigol_set_phase rt self channel phase)"
| "rigol rt self (set_waveform channel waveform_type) =
     Some (rigol_set_waveform rt self channel waveform_type)"
| "rigol rt self (sync_phase channel) = Some (rigol_sync_phase rt self channel)"
| "rigol rt self (trigger_burst channel) = Some (rigol_trigger_burst rt self channel)"

fun siglent :: "runtime \<Rightarrow> AWG \<Rightarrow> call \<Rightarrow> outcome option" where
  "siglent rt self (get_channel_wave_parameter channel parameter) =
     Some (siglent_get_channel_wave_parameter rt self channel parameter)"
| "siglent rt self (set_amplitude channel amplitude unit) =
     Some (siglent_set_amplitude rt self channel amplitude unit)"
| "siglent rt self (set_burst_delay channel delay) =
     Some (siglent_set_burst_delay rt self channel delay)"
| "siglent rt self (set_burst_mode channel burst_mode) =
     Some (siglent_set_burst_mode rt self channel burst_mode)"
| "siglent rt self (set_burst_period channel period) =
     Some (siglent_set_burst_period rt self channel period)"
| "siglent rt self (set_burst_state channel state) =
     Some (siglent_set_burst_state rt self channel state)"
| "siglent rt self (set_burst_trigger_source channel trigger_source) =
     Some (siglent_set_burst_trigger_source rt self channel trigger_source)"
| "siglent rt self (set_frequency channel frequency unit) =
     Some (siglent_set_frequency rt self channel frequency unit)"
| "siglent rt self (set_offset channel offset_voltage) =
     Some (siglent_set_offset rt self channel offset_voltage)"
| "siglent rt self (set_output channel state) =
     Some (siglent_set_output rt self channel state)"
| "siglent rt self (set_output_load channel load) =
     Some (siglent_set_output_load rt self channel load)"
| "siglent rt self (set_phase channel phase) =
     Some (siglent_set_phase rt self channel phase)"
| "siglent rt self (set_waveform channel waveform_type) =
     Some (siglent_set_waveform rt self channel waveform_type)"
| "siglent rt self (sync_phase channel) = Some (siglent_sync_phase rt self channel)"
| "siglent rt self (trigger_burst channel) = Some (siglent_trigger_burst rt self channel)"

datatype vendor = RigolDG1000Z | SiglentSDG1000X

fun invoke :: "vendor \<Rightarrow> runtime \<Rightarrow> AWG \<Rightarrow> call \<Rightarrow> outcome option" where
  "invoke RigolDG1000Z rt self c = rigol rt self c"
| "invoke SiglentSDG1000X rt self c = siglent rt self c"


section \<open>Example runtime and transports\<close>

text \<open>
  A runtime whose floats print as \<^verbatim>\<open>2.5\<close>, a transport that accepts every write and answers
  every query with a two-pair response, and a transport on which every call fails.
\<close>

definition rt0 :: runtime where
  "rt0 = \<lparr>float_str = (\<lambda>f. ''2.5''), float_mul = (\<lambda>f k. f), py_repr = (\<lambda>v. ''?'')\<rparr>"

definition awg_ok :: AWG where
  "awg_ok = \<lparr>awg_write = (\<lambda>c. None),
             awg_query = (\<lambda>c. Inr ''C1:BSWV WVTP,SINE,FRQ,1000HZ'')\<rparr>"

definition awg_down :: AWG where
  "awg_down = \<lparr>awg_write = (\<lambda>c. Some ''timed out''),
               awg_query = (\<lambda>c. Inl ''timed out'')\<rparr>"


section \<open>Notions used to state the properties\<close>

text \<open>
  Whether the \<^verbatim>\<open>except\<close> handler of a method ends in a bare \<^verbatim>\<open>raise\<close>, read off the two
  sources (the same in both classes).
\<close>

fun reraises :: "call \<Rightarrow> bool" where
  "reraises (get_channel_wave_parameter channel parameter) = True"
| "reraises (set_amplitude channel amplitude unit) = True"
| "reraises (set_burst_delay channel delay) = False"
| "reraises (set_burst_mode channel burst_mode) = False"
| "reraises (set_burst_period channel period) = False"
| "reraises (set_burst_state channel state) = False"
| "reraises (set_burst_trigger_source channel trigger_source) = False"
| "reraises (set_frequency channel frequency unit) = True"
| "reraises (set_offset channel offset_voltage) = True"
| "reraises (set_output channel state) = False"
| "reraises (set_output_load channel load) = False"
| "reraises (set_phase channel phase) = True"
| "reraises (set_waveform channel waveform_type) = True"
| "reraises (sync_phase channel) = True"
| "reraises (trigger_burst channel) = False"

text \<open>The exceptions that the argument checks raise.\<close>

fun validation_error :: "exn \<Rightarrow> bool" where
  "validation_error (InvalidChannelNumber c) = True"
| "validation_error (TypeError m) = True"
| "validation_error (ValueError m) = True"
| "validation_error e = False"

text \<open>
  The two ways a setter ends: an argument check raises, or the \<^verbatim>\<open>try\<close> block is entered and
  one command is written.
\<close>

inductive checks_then_writes :: "AWG \<Rightarrow> bool \<Rightarrow> outcome \<Rightarrow> bool" for self :: AWG and r :: bool where
  rejected: "validation_error e \<Longrightarrow> checks_then_writes self r (raise e)"
| written: "checks_then_writes self r (try_write self command done failed r)"

text \<open>
  The conversion the specification gives for the base-unit dialect: the value times 1 for
  Hz, times 1000 for kHz, times 1000000 for MHz. It is compared with what
  \<open>siglent_set_frequency\<close> computes.
\<close>

fun spec_frequency_factor :: "FrequencyUnit \<Rightarrow> int" where
  "spec_frequency_factor HZ = 1"
| "spec_frequency_factor KHZ = 1000"
| "spec_frequency_factor MHZ = 1000000"

text \<open>
  The wire key that each of the eight parameter names is read from (the \<^verbatim>\<open>result_dict\<close>
  literal of \<^verbatim>\<open>get_channel_wave_parameter\<close>).
\<close>

definition parameter_key :: "string \<Rightarrow> string option" where
  "parameter_key =
     map_of [(''waveform_type'', ''WVTP''), (''frequency'', ''FRQ''), (''period'', ''PERI''),
             (''amplitude'', ''AMP''), (''offset'', ''OFST''), (''high_level'', ''HLEV''),
             (''low_level'', ''LLEV''), (''phase'', ''PHSE'')]"

text \<open>
  A synthetic, well-formed response with known key/value pairs: a header without a space,
  one space, and the keys and values joined by commas. Keys and values hold no comma, no
  space and no apostrophe, and no key occurs twice.
\<close>

fun join_commas :: "string list \<Rightarrow> string" where
  "join_commas [] = []"
| "join_commas [x] = x"
| "join_commas (x # y # zs) = x @ CHR '','' # join_commas (y # zs)"

fun flatten_pairs :: "(string \<times> string) list \<Rightarrow> string list" where
  "flatten_pairs [] = []"
| "flatten_pairs ((k, v) # kvs) = k # v # flatten_pairs kvs"

definition response_text :: "string \<Rightarrow> (string \<times> string) list \<Rightarrow> string" where
  "response_text header kvs = header @ CHR '' '' # join_commas (flatten_pairs kvs)"

definition plain :: "string \<Rightarrow> bool" where
  "plain s = (CHR '','' \<notin> set s \<and> CHR '' '' \<notin> set s \<and> apostrophe \<notin> set s)"

definition well_formed :: "string \<Rightarrow> (string \<times> string) list \<Rightarrow> bool" where
  "well_formed header kvs =
     (CHR '' '' \<notin> set header
      \<and> list_all (\<lambda>(k, v). plain k \<and> plain v) kvs
      \<and> distinct (map fst kvs))"


text \<open>A call that an argument check ended: it raised and handed nothing to the transport.\<close>

definition rejected_by_check :: "outcome \<Rightarrow> bool" where
  "rejected_by_check out =
     ((case result out of Inl e \<Rightarrow> validation_error e | Inr v \<Rightarrow> False) \<and> calls out = [])"


section \<open>Facts about the model\<close>

lemma bad_channel_iff: "bad_channel c \<longleftrightarrow> c \<noteq> PInt 1 \<and> c \<noteq> PInt 2"
  by (cases c) (auto simp: bad_channel_def)

lemma str_int_1: "str_int 1 = ''1''"
  by (simp add: str_int_def str_nat.simps digit_char_def)

lemma str_int_2: "str_int 2 = ''2''"
  by (simp add: str_int_def str_nat.simps digit_char_def)

lemma raise_sel: "result (raise e) = Inl e" "calls (raise e) = []" "logged (raise e) = []"
  by (simp_all add: raise_def)

lemma try_write_calls: "calls (try_write self c d f r) = [Write c]"
  by (simp add: try_write_def split: option.split)

lemma try_write_fail:
  "awg_write self c = Some e \<Longrightarrow>
   try_write self c d f r =
     \<lparr>result = (if r then Inl (TransportFailure e) else Inr PNone), calls = [Write c],
      logged = [(ERROR, f @ '': '' @ e)]\<rparr>"
  by (simp add: try_write_def)

lemma try_write_ok:
  "awg_write self c = None \<Longrightarrow>
   try_write self c d f r = \<lparr>result = Inr PNone, calls = [Write c], logged = [(DEBUG, d)]\<rparr>"
  by (simp add: try_write_def)

lemma try_write_result:
  "result (try_write self c d f r) = Inl e \<Longrightarrow> \<exists>m. e = TransportFailure m"
  by (auto simp: try_write_def split: option.splits if_splits)

lemma try_write_not_validation:
  "result (try_write self c d f r) = Inl e \<Longrightarrow> \<not> validation_error e"
  by (auto dest: try_write_result)

subsection \<open>Every setter checks, then writes\<close>

lemmas ctw = checks_then_writes.rejected checks_then_writes.written

lemma rigol_set_amplitude_ctw:
  "checks_then_writes self True (rigol_set_amplitude rt self ch a u)"
  by (simp add: rigol_set_amplitude_def ctw split: option.split pyval.split)

lemma rigol_set_burst_delay_ctw:
  "checks_then_writes self False (rigol_set_burst_delay rt self ch a)"
  by (simp add: rigol_set_burst_delay_def ctw split: option.split pyval.split)

lemma rigol_set_burst_mode_ctw:
  "checks_then_writes self False (rigol_set_burst_mode rt self ch a)"
  by (simp add: rigol_set_burst_mode_def ctw split: option.split pyval.split)

lemma rigol_set_burst_period_ctw:
  "checks_then_writes self False (rigol_set_burst_period rt self ch a)"
  by (simp add: rigol_set_burst_period_def ctw split: option.split pyval.split)

lemma rigol_set_burst_state_ctw:
  "checks_then_writes self False (rigol_set_burst_state rt self ch a)"
  by (simp add: rigol_set_burst_state_def ctw split: option.split pyval.split)

lemma rigol_set_burst_trigger_source_ctw:
  "checks_then_writes self False (rigol_set_burst_trigger_source rt self ch a)"
  by (simp add: rigol_set_burst_trigger_source_def ctw split: option.split pyval.split)

lemma rigol_set_frequency_ctw:
  "checks_then_writes self True (rigol_set_frequency rt self ch a u)"
  by (simp add: rigol_set_frequency_def ctw split: option.split pyval.split)

lemma rigol_set_offset_ctw:
  "checks_then_writes self True (rigol_set_offset rt self ch a)"
  by (simp add: rigol_set_offset_def ctw split: option.split pyval.split)

lemma rigol_set_output_ctw:
  "checks_then_writes self False (rigol_set_output rt self ch a)"
  by (simp add: rigol_set_output_def ctw split: option.split pyval.split)

lemma rigol_set_output_load_ctw:
  "checks_then_writes self False (rigol_set_output_load rt self ch a)"
  by (simp add: rigol_set_output_load_def ctw Let_def split: option.split pyval.split)

lemma rigol_set_phase_ctw:
  "checks_then_writes self True (rigol_set_phase rt self ch a)"
  by (simp add: rigol_set_phase_def ctw split: option.split pyval.split)

lemma rigol_set_waveform_ctw:
  "checks_then_writes self True (rigol_set_waveform rt self ch a)"
  by (simp add: rigol_set_waveform_def ctw split: option.split pyval.split)

lemma rigol_sync_phase_ctw:
  "checks_then_writes self True (rigol_sync_phase rt self ch)"
  by (simp add: rigol_sync_phase_def ctw)

lemma rigol_trigger_burst_ctw:
  "checks_then_writes self False (rigol_trigger_burst rt self ch)"
  by (simp add: rigol_trigger_burst_def ctw)

lemma siglent_set_amplitude_ctw:
  "checks_then_writes self True (siglent_set_amplitude rt self ch a u)"
  by (simp add: siglent_set_amplitude_def ctw split: option.split pyval.split)

lemma siglent_set_burst_delay_ctw:
  "checks_then_writes self False (siglent_set_burst_delay rt self ch a)"
  by (simp add: siglent_set_burst_delay_def ctw split: option.split pyval.split)

lemma siglent_set_burst_mode_ctw:
  "checks_then_writes self False (siglent_set_burst_mode rt self ch a)"
  by (simp add: siglent_set_burst_mode_def ctw split: option.split pyval.split)

lemma siglent_set_burst_period_ctw:
  "checks_then_writes self False (siglent_set_burst_period rt self ch a)"
  by (simp add: siglent_set_burst_period_def ctw split: option.split pyval.split)

lemma siglent_set_burst_state_ctw:
  "checks_then_writes self False (siglent_set_burst_state rt self ch a)"
  by (simp add: siglent_set_burst_state_def ctw split: option.split pyval.split)

lemma siglent_set_burst_trigger_source_ctw:
  "checks_then_writes self False (siglent_set_burst_trigger_source rt self ch a)"
  by (simp add: siglent_set_burst_trigger_source_def ctw split: option.split pyval.split)

lemma siglent_set_frequency_ctw:
  "checks_then_writes self True (siglent_set_frequency rt self ch a u)"
  by (simp add: siglent_set_frequency_def ctw Let_def split: option.split pyval.split)

lemma siglent_set_offset_ctw:
  "checks_then_writes self True (siglent_set_offset rt self ch a)"
  by (simp add: siglent_set_offset_def ctw split: option.split pyval.split)

lemma siglent_set_output_ctw:
  "checks_then_writes self False (siglent_set_output rt self ch a)"
  by (simp add: siglent_set_output_def ctw split: option.split pyval.split)

lemma siglent_set_output_load_ctw:
  "checks_then_writes self False (siglent_set_output_load rt self ch a)"
  by (simp add: siglent_set_output_load_def ctw Let_def split: option.split pyval.split)

lemma siglent_set_phase_ctw:
  "checks_then_writes self True (siglent_set_phase rt self ch a)"
  by (simp add: siglent_set_phase_def ctw split: option.split pyval.split)

lemma siglent_set_waveform_ctw:
  "checks_then_writes self True (siglent_set_waveform rt self ch a)"
  by (simp add: siglent_set_waveform_def ctw split: option.split pyval.split)

lemma siglent_sync_phase_ctw:
  "checks_then_writes self True (siglent_sync_phase rt self ch)"
  by (simp add: siglent_sync_phase_def ctw)

lemma siglent_trigger_burst_ctw:
  "checks_then_writes self False (siglent_trigger_burst rt self ch)"
  by (simp add: siglent_trigger_burst_def ctw)

lemmas method_ctw =
  rigol_set_amplitude_ctw rigol_set_burst_delay_ctw rigol_set_burst_mode_ctw
  rigol_set_burst_period_ctw rigol_set_burst_state_ctw rigol_set_burst_trigger_source_ctw
  rigol_set_frequency_ctw rigol_set_offset_ctw rigol_set_output_ctw rigol_set_output_load_ctw
  rigol_set_phase_ctw rigol_set_waveform_ctw rigol_sync_phase_ctw rigol_trigger_burst_ctw
  siglent_set_amplitude_ctw siglent_set_burst_delay_ctw siglent_set_burst_mode_ctw
  siglent_set_burst_period_ctw siglent_set_burst_state_ctw siglent_set_burst_trigger_source_ctw
  siglent_set_frequency_ctw siglent_set_offset_ctw siglent_set_output_ctw
  siglent_set_output_load_ctw siglent_set_phase_ctw siglent_set_waveform_ctw
  siglent_sync_phase_ctw siglent_trigger_burst_ctw

lemma rigol_ctw:
  "rigol rt self c = Some out \<Longrightarrow> checks_then_writes self (reraises c) out"
  by (cases c) (auto simp: method_ctw)

lemma siglent_ctw:
  "siglent rt self c = Some out \<Longrightarrow> \<forall>ch p. c \<noteq> get_channel_wave_parameter ch p \<Longrightarrow>
   checks_then_writes self (reraises c) out"
  by (cases c) (auto simp: method_ctw)

lemma ctw_validation:
  assumes "checks_then_writes self r out" "result out = Inl e" "validation_error e"
  shows "calls out = [] \<and> logged out = []"
  using assms
  by (cases rule: checks_then_writes.cases) (auto simp: raise_sel dest: try_write_not_validation)

lemma ctw_transport_failure:
  assumes "checks_then_writes self r out" "calls out = [Write command]"
    "awg_write self command = Some e"
  shows "result out = (if r then Inl (TransportFailure e) else Inr PNone)
         \<and> (\<exists>m. logged out = [(ERROR, m @ '': '' @ e)])"
  using assms
proof (cases rule: checks_then_writes.cases)
  case (rejected x)
  with assms(2) show ?thesis by (simp add: raise_sel)
next
  case (written c d f)
  with assms(2) have "c = command" by (simp add: try_write_calls)
  with written assms(3) show ?thesis by (simp add: try_write_fail)
qed

lemma get_channel_wave_parameter_result:
  "result (siglent_get_channel_wave_parameter rt self ch p) = Inl e \<Longrightarrow> \<not> validation_error e"
  by (auto simp: siglent_get_channel_wave_parameter_def log_and_reraise_def Let_def
      split: sum.splits list.splits pyval.splits option.splits)

lemma get_channel_wave_parameter_calls:
  "calls (siglent_get_channel_wave_parameter rt self ch p)
     = [Query (''C'' @ fmt rt ch @ ''BSWV?'')]"
  by (simp add: siglent_get_channel_wave_parameter_def log_and_reraise_def Let_def
      split: sum.split list.split pyval.split option.split)

lemmas rigol_defs = rigol_set_amplitude_def rigol_set_burst_delay_def rigol_set_burst_mode_def
  rigol_set_burst_period_def rigol_set_burst_state_def rigol_set_burst_trigger_source_def
  rigol_set_frequency_def rigol_set_offset_def rigol_set_output_def rigol_set_output_load_def
  rigol_set_phase_def rigol_set_waveform_def rigol_sync_phase_def rigol_trigger_burst_def

lemmas siglent_defs = siglent_set_amplitude_def siglent_set_burst_delay_def
  siglent_set_burst_mode_def siglent_set_burst_period_def siglent_set_burst_state_def
  siglent_set_burst_trigger_source_def siglent_set_frequency_def siglent_set_offset_def
  siglent_set_output_def siglent_set_output_load_def siglent_set_phase_def
  siglent_set_waveform_def siglent_trigger_burst_def

lemma rigol_bad_channel:
  "bad_channel (channel_of c) \<Longrightarrow> rigol rt self c = Some out \<Longrightarrow>
   out = raise (InvalidChannelNumber (channel_of c))"
  by (cases c) (auto simp: rigol_defs)

lemma siglent_bad_channel:
  "bad_channel (channel_of c) \<Longrightarrow> siglent rt self c = Some out \<Longrightarrow>
   (\<forall>ch. c \<noteq> sync_phase ch) \<Longrightarrow> (\<forall>ch p. c \<noteq> get_channel_wave_parameter ch p) \<Longrightarrow>
   out = raise (InvalidChannelNumber (channel_of c))"
  by (cases c) (auto simp: siglent_defs)


subsection \<open>Transport failures\<close>

text \<open>
  What the two classes do when the write of the command fails: the handler logs one error
  record, and the exception reaches the caller exactly for the methods whose handler ends
  in \<^verbatim>\<open>raise\<close>.
\<close>

lemma transport_failure_policy:
  assumes "invoke v rt self c = Some out"
    and "calls out = [Write command]"
    and "awg_write self command = Some e"
  shows "result out = (if reraises c then Inl (TransportFailure e) else Inr PNone)
         \<and> (\<exists>m. logged out = [(ERROR, m @ '': '' @ e)])"
proof -
  have "\<forall>ch p. c \<noteq> get_channel_wave_parameter ch p"
  proof (intro allI notI)
    fix ch p
    assume "c = get_channel_wave_parameter ch p"
    with assms(1,2) show False
      by (cases v) (auto simp: get_channel_wave_parameter_calls)
  qed
  with assms(1) have "checks_then_writes self (reraises c) out"
    by (cases v) (auto intro: rigol_ctw siglent_ctw)
  then show ?thesis
    using assms(2,3) by (rule ctw_transport_failure)
qed

subsection \<open>Absolute values\<close>

lemma abs_of_int_le_360: "(\<bar>real_of_int i\<bar> \<le> 360) = (\<bar>i\<bar> \<le> 360)"
proof -
  have "\<bar>real_of_int i\<bar> = real_of_int \<bar>i\<bar>"
    by simp
  then show ?thesis
    by (simp only: of_int_le_numeral_iff)
qed

subsection \<open>A value of the wrong enumeration\<close>

lemma rejected_raise: "validation_error e \<Longrightarrow> rejected_by_check (raise e)"
  by (simp add: rejected_by_check_def raise_sel)

lemma rigol_set_amplitude_wrong_unit:
  assumes "\<forall>u. x \<noteq> PAmplitudeUnit u"
  shows "rejected_by_check (rigol_set_amplitude rt self ch a x)"
    and "\<not> bad_channel ch \<Longrightarrow> as_number a = Some n \<Longrightarrow> num_le (Fin (- 10)) n \<Longrightarrow>
         num_le n (Fin 10) \<Longrightarrow>
         rigol_set_amplitude rt self ch a x
           = raise (TypeError (must_be_enum_have_you ''unit'' ''AmplitudeUnit'' ''AmplitudeType''))"
  using assms
  by (cases x; simp add: rigol_set_amplitude_def rejected_raise split: option.split)+

lemma siglent_set_amplitude_wrong_unit:
  assumes "\<forall>u. x \<noteq> PAmplitudeUnit u"
  shows "rejected_by_check (siglent_set_amplitude rt self ch a x)"
    and "\<not> bad_channel ch \<Longrightarrow> as_number a = Some n \<Longrightarrow> num_le (Fin (- 10)) n \<Longrightarrow>
         num_le n (Fin 10) \<Longrightarrow>
         siglent_set_amplitude rt self ch a x
           = raise (TypeError (must_be_enum_have_you ''unit'' ''AmplitudeUnit'' ''AmplitudeType''))"
  using assms
  by (cases x; simp add: siglent_set_amplitude_def rejected_raise split: option.split)+

lemma rigol_set_frequency_wrong_unit:
  assumes "\<forall>u. x \<noteq> PFrequencyUnit u"
  shows "rejected_by_check (rigol_set_frequency rt self ch a x)"
    and "\<not> bad_channel ch \<Longrightarrow> as_number a = Some n \<Longrightarrow> \<not> num_lt n (Fin 0) \<Longrightarrow>
         rigol_set_frequency rt self ch a x
           = raise (TypeError (must_be_enum_did_you ''unit'' ''FrequencyUnit'' ''FrequencyUnit''))"
  using assms
  by (cases x; simp add: rigol_set_frequency_def rejected_raise split: option.split)+

lemma siglent_set_frequency_wrong_unit:
  assumes "\<forall>u. x \<noteq> PFrequencyUnit u"
  shows "rejected_by_check (siglent_set_frequency rt self ch a x)"
    and "\<not> bad_channel ch \<Longrightarrow> as_number a = Some n \<Longrightarrow> \<not> num_lt n (Fin 0) \<Longrightarrow>
         siglent_set_frequency rt self ch a x
           = raise (TypeError (must_be_enum_did_you ''unit'' ''FrequencyUnit'' ''FrequencyUnit''))"
  using assms
  by (cases x; simp add: siglent_set_frequency_def rejected_raise split: option.split)+

lemma rigol_set_waveform_wrong_type:
  assumes "\<forall>w. x \<noteq> PWaveformType w"
  shows "rejected_by_check (rigol_set_waveform rt self ch x)"
    and "\<not> bad_channel ch \<Longrightarrow>
         rigol_set_waveform rt self ch x
           = raise (TypeError
               (must_be_enum_have_you ''waveform_type'' ''WaveformType'' ''WaveformType''))"
  using assms
  by (cases x; simp add: rigol_set_waveform_def rejected_raise)+

lemma siglent_set_waveform_wrong_type:
  assumes "\<forall>w. x \<noteq> PWaveformType w"
  shows "rejected_by_check (siglent_set_waveform rt self ch x)"
    and "\<not> bad_channel ch \<Longrightarrow>
         siglent_set_waveform rt self ch x
           = raise (TypeError
               (must_be_enum_have_you ''waveform_type'' ''WaveformType'' ''WaveformType''))"
  using assms
  by (cases x; simp add: siglent_set_waveform_def rejected_raise)+

lemma rigol_set_burst_mode_wrong_type:
  assumes "\<forall>m. x \<noteq> PBurstModeRigol m"
  shows "rejected_by_check (rigol_set_burst_mode rt self ch x)"
    and "\<not> bad_channel ch \<Longrightarrow>
         rigol_set_burst_mode rt self ch x
           = raise (TypeError
               (must_be_enum_have_you ''burst_mode'' ''BurstModeRigol'' ''BurstModeRigol''))"
  using assms
  by (cases x; simp add: rigol_set_burst_mode_def rejected_raise)+

lemma siglent_set_burst_mode_wrong_type:
  assumes "\<forall>m. x \<noteq> PBurstModeSiglent m"
  shows "rejected_by_check (siglent_set_burst_mode rt self ch x)"
    and "\<not> bad_channel ch \<Longrightarrow>
         siglent_set_burst_mode rt self ch x
           = raise (TypeError
               (must_be_enum_have_you ''burst_mode'' ''BurstModeSiglent'' ''BurstModeSiglent''))"
  using assms
  by (cases x; simp add: siglent_set_burst_mode_def rejected_raise)+

lemma rigol_set_burst_trigger_source_wrong_type:
  assumes "\<forall>s. x \<noteq> PBurstTriggerSource s"
  shows "rejected_by_check (rigol_set_burst_trigger_source rt self ch x)"
    and "\<not> bad_channel ch \<Longrightarrow>
         rigol_set_burst_trigger_source rt self ch x
           = raise (TypeError
               (must_be_enum_have_you ''trigger_source'' ''BurstTriggerSource''
                  ''BurstTriggerSource''))"
  using assms
  by (cases x; simp add: rigol_set_burst_trigger_source_def rejected_raise)+

lemma siglent_set_burst_trigger_source_wrong_type:
  assumes "\<forall>s. x \<noteq> PBurstTriggerSource s"
  shows "rejected_by_check (siglent_set_burst_trigger_source rt self ch x)"
    and "\<not> bad_channel ch \<Longrightarrow>
         siglent_set_burst_trigger_source rt self ch x
           = raise (TypeError
               (must_be_enum_have_you ''trigger_source'' ''BurstTriggerSource''
                  ''BurstTriggerSource''))"
  using assms
  by (cases x; simp add: siglent_set_burst_trigger_source_def rejected_raise)+

subsection \<open>Parsing a well-formed response\<close>

lemma split_on_not_Nil: "split_on c s \<noteq> []"
  by (induction s) (auto split: list.splits)

lemma split_on_no_separator: "c \<notin> set s \<Longrightarrow> split_on c s = [s]"
  by (induction s) auto

lemma split_on_append:
  "c \<notin> set a \<Longrightarrow> split_on c (a @ c # b) = a # split_on c b"
  by (induction a) auto

lemma split_on_join_commas:
  "\<forall>x \<in> set xs. CHR '','' \<notin> set x \<Longrightarrow>
   split_on CHR '','' (join_commas xs) = (if xs = [] then [[]] else xs)"
proof (induction xs rule: join_commas.induct)
  case 1
  show ?case by simp
next
  case (2 x)
  then show ?case by (simp add: split_on_no_separator)
next
  case (3 x y zs)
  then show ?case by (simp add: split_on_append)
qed

lemma set_join_commas:
  "set (join_commas xs) \<subseteq> insert CHR '','' (\<Union>x \<in> set xs. set x)"
  by (induction xs rule: join_commas.induct) auto

lemma slice_even_flatten: "slice_even (flatten_pairs kvs) = map fst kvs"
  by (induction kvs) auto

lemma slice_odd_flatten: "slice_odd (flatten_pairs kvs) = map snd kvs"
  by (induction kvs) auto

lemma plain_flatten_pairs:
  "list_all (\<lambda>(k, v). plain k \<and> plain v) kvs \<Longrightarrow> \<forall>x \<in> set (flatten_pairs kvs). plain x"
proof (induction kvs)
  case Nil
  show ?case by simp
next
  case (Cons kv kvs)
  obtain k v where kv: "kv = (k, v)"
    by (cases kv)
  from Cons.prems kv have k: "plain k" and v: "plain v"
    and rest: "list_all (\<lambda>(k, v). plain k \<and> plain v) kvs"
    by simp_all
  from Cons.IH [OF rest] have "\<forall>x \<in> set (flatten_pairs kvs). plain x" .
  with k v show ?case
    unfolding kv by simp
qed

lemma strip_apostrophes_id: "apostrophe \<notin> set s \<Longrightarrow> strip_apostrophes s = s"
proof -
  assume a: "apostrophe \<notin> set s"
  have d: "\<And>t. apostrophe \<notin> set t \<Longrightarrow> dropWhile (\<lambda>c. c = apostrophe) t = t"
    by (case_tac t) auto
  from a show ?thesis
    by (simp add: strip_apostrophes_def d)
qed

lemma dict_fold:
  "fold (\<lambda>(k, v) m. m(k \<mapsto> v)) kvs m0 = m0 ++ map_of (rev kvs)"
  by (induction kvs arbitrary: m0) auto

lemma dict_distinct: "distinct (map fst kvs) \<Longrightarrow> dict kvs = map_of kvs"
proof -
  assume d: "distinct (map fst kvs)"
  have "dict kvs = map_of (rev kvs)"
    by (simp add: dict_def dict_fold)
  also have "\<dots> = map_of kvs"
    using d by (intro map_of_inject_set [THEN iffD2]) (simp_all add: rev_map [symmetric])
  finally show ?thesis .
qed

lemma well_formed_payload:
  assumes "well_formed header kvs"
  shows "CHR '' '' \<notin> set (join_commas (flatten_pairs kvs))"
    and "apostrophe \<notin> set (join_commas (flatten_pairs kvs))"
    and "\<forall>x \<in> set (flatten_pairs kvs). CHR '','' \<notin> set x"
proof -
  from assms have "list_all (\<lambda>(k, v). plain k \<and> plain v) kvs"
    by (simp add: well_formed_def)
  then have p: "\<forall>x \<in> set (flatten_pairs kvs). plain x"
    by (rule plain_flatten_pairs)
  then show "\<forall>x \<in> set (flatten_pairs kvs). CHR '','' \<notin> set x"
    by (simp add: plain_def)
  from p show "CHR '' '' \<notin> set (join_commas (flatten_pairs kvs))"
    using set_join_commas [of "flatten_pairs kvs"] by (auto simp: plain_def)
  from p show "apostrophe \<notin> set (join_commas (flatten_pairs kvs))"
    using set_join_commas [of "flatten_pairs kvs"] by (auto simp: plain_def apostrophe_def)
qed

lemma parse_well_formed:
  assumes "well_formed header kvs"
  shows "split_on CHR '' '' (response_text header kvs)
           = [header, join_commas (flatten_pairs kvs)]"
    and "dict (zip (slice_even (split_on CHR '','' (strip_apostrophes
                      (join_commas (flatten_pairs kvs)))))
                   (slice_odd (split_on CHR '','' (strip_apostrophes
                      (join_commas (flatten_pairs kvs))))))
           = map_of kvs"
proof -
  from assms have h: "CHR '' '' \<notin> set header"
    by (simp add: well_formed_def)
  show "split_on CHR '' '' (response_text header kvs)
           = [header, join_commas (flatten_pairs kvs)]"
    by (simp add: response_text_def split_on_append [OF h]
          split_on_no_separator [OF well_formed_payload(1) [OF assms]])
  have z: "zip (slice_even (split_on CHR '','' (join_commas (flatten_pairs kvs))))
               (slice_odd (split_on CHR '','' (join_commas (flatten_pairs kvs)))) = kvs"
  proof (cases kvs)
    case Nil
    then show ?thesis by simp
  next
    case (Cons kv rest)
    then have "flatten_pairs kvs \<noteq> []"
      by (cases kv) simp
    then show ?thesis
      by (simp add: split_on_join_commas [OF well_formed_payload(3) [OF assms]]
            slice_even_flatten slice_odd_flatten zip_map_fst_snd)
  qed
  from assms have "distinct (map fst kvs)"
    by (simp add: well_formed_def)
  then show "dict (zip (slice_even (split_on CHR '','' (strip_apostrophes
                      (join_commas (flatten_pairs kvs)))))
                   (slice_odd (split_on CHR '','' (strip_apostrophes
                      (join_commas (flatten_pairs kvs))))))
           = map_of kvs"
    by (simp add: strip_apostrophes_id [OF well_formed_payload(2) [OF assms]] z dict_distinct)
qed

lemma result_dict_lookup:
  "parameter_key name = Some key \<Longrightarrow>
   map_of [(''waveform_type'', params ''WVTP''), (''frequency'', params ''FRQ''),
           (''period'', params ''PERI''), (''amplitude'', params ''AMP''),
           (''offset'', params ''OFST''), (''high_level'', params ''HLEV''),
           (''low_level'', params ''LLEV''), (''phase'', params ''PHSE'')] name
     = Some (params key)"
  by (auto simp: parameter_key_def split: if_splits)


section \<open>The claims\<close>

text \<open>
  C1 (the code departs from it at \<^verbatim>\<open>trigger_burst\<close>). The claim: on a transport write
  failure, \<^verbatim>\<open>set_amplitude\<close>, \<^verbatim>\<open>set_frequency\<close>, \<^verbatim>\<open>set_offset\<close>, \<^verbatim>\<open>set_phase\<close>,
  \<^verbatim>\<open>set_waveform\<close>, \<^verbatim>\<open>sync_phase\<close> and \<^verbatim>\<open>trigger_burst\<close> propagate the exception, while the
  burst delay/mode/period/state/trigger-source, output and output-load setters only log it.
  What the code does for \<^verbatim>\<open>trigger_burst\<close>, whose docstring lists the exception under
  \<^verbatim>\<open>Raises\<close>: in both classes, on a valid channel and with a failing write, the call logs
  one error record and returns \<^verbatim>\<open>None\<close>; the exception does not reach the caller.
\<close>

theorem trigger_burst_swallows_transport_failure:
  assumes "channel = PInt 1 \<or> channel = PInt 2"
    and "\<forall>command. awg_write self command = Some e"
    and "invoke v rt self (trigger_burst channel) = Some out"
  shows "result out = Inr PNone
         \<and> (\<exists>command. calls out = [Write command])
         \<and> (\<exists>m. logged out = [(ERROR, m @ '': '' @ e)])"
  using assms
  by (cases v)
     (auto simp: rigol_trigger_burst_def siglent_trigger_burst_def bad_channel_iff try_write_fail)

theorem trigger_burst_swallows_transport_failure_witness:
  "(\<forall>command. awg_write awg_down command = Some ''timed out'')
   \<and> invoke RigolDG1000Z rt0 awg_down (trigger_burst (PInt 1))
       = Some (rigol_trigger_burst rt0 awg_down (PInt 1))
   \<and> result (rigol_trigger_burst rt0 awg_down (PInt 1)) = Inr PNone
   \<and> calls (rigol_trigger_burst rt0 awg_down (PInt 1)) = [Write ''SOUR1:BURS:TRIG'']"
  using trigger_burst_swallows_transport_failure
          [of "PInt 1" awg_down "''timed out''" RigolDG1000Z rt0
              "rigol_trigger_burst rt0 awg_down (PInt 1)"]
  by (simp add: awg_down_def rigol_trigger_burst_def bad_channel_iff try_write_calls str_int_1)

text \<open>
  C2 (corrected). The claim: every public operation of both classes raises
  \<^verbatim>\<open>InvalidChannelNumber\<close> for every channel that is not the integer 1 or 2, before any
  command is formatted or sent, \<^verbatim>\<open>SiglentSDG1000X.sync_phase\<close> and
  \<^verbatim>\<open>SiglentSDG1000X.get_channel_wave_parameter\<close> included. It fails at
  \<^verbatim>\<open>SiglentSDG1000X.sync_phase\<close>, which ignores its channel: with channel 3 the command
  \<^verbatim>\<open>EQPHASE\<close> is written and the call returns.
\<close>

theorem siglent_sync_phase_accepts_channel_3:
  "PInt 3 \<noteq> PInt 1 \<and> PInt 3 \<noteq> PInt 2
   \<and> invoke SiglentSDG1000X rt0 awg_ok (sync_phase (PInt 3))
       = Some \<lparr>result = Inr PNone, calls = [Write ''EQPHASE''],
               logged = [(DEBUG, ''Phases of both the channels have been synchronized'')]\<rparr>"
  by (simp add: siglent_sync_phase_def try_write_def awg_ok_def)

text \<open>
  C2 as amended: for every channel that is not the integer 1 or 2, every operation of
  \<^verbatim>\<open>RigolDG1000Z\<close>, and every operation of \<^verbatim>\<open>SiglentSDG1000X\<close> other than \<^verbatim>\<open>sync_phase\<close> and
  \<^verbatim>\<open>get_channel_wave_parameter\<close>, raises \<^verbatim>\<open>InvalidChannelNumber\<close> with that channel, with no
  command handed to the transport and nothing logged; \<^verbatim>\<open>SiglentSDG1000X.sync_phase\<close> accepts
  any channel and writes \<^verbatim>\<open>EQPHASE\<close>.
\<close>

theorem invalid_channel_rejected:
  assumes "channel_of c \<noteq> PInt 1" and "channel_of c \<noteq> PInt 2"
    and "invoke v rt self c = Some out"
  shows "((v = SiglentSDG1000X \<longrightarrow>
            (\<forall>ch. c \<noteq> sync_phase ch) \<and> (\<forall>ch p. c \<noteq> get_channel_wave_parameter ch p))
          \<longrightarrow> result out = Inl (InvalidChannelNumber (channel_of c))
              \<and> calls out = [] \<and> logged out = [])
       \<and> (v = SiglentSDG1000X \<and> (\<exists>ch. c = sync_phase ch)
          \<longrightarrow> calls out = [Write ''EQPHASE'']
              \<and> result out \<noteq> Inl (InvalidChannelNumber (channel_of c)))"
proof (intro conjI)
  from assms(1,2) have bad: "bad_channel (channel_of c)"
    by (simp add: bad_channel_iff)
  show "(v = SiglentSDG1000X \<longrightarrow>
            (\<forall>ch. c \<noteq> sync_phase ch) \<and> (\<forall>ch p. c \<noteq> get_channel_wave_parameter ch p))
          \<longrightarrow> result out = Inl (InvalidChannelNumber (channel_of c))
              \<and> calls out = [] \<and> logged out = []"
  proof (cases v)
    case RigolDG1000Z
    with assms(3) have "out = raise (InvalidChannelNumber (channel_of c))"
      by (simp add: rigol_bad_channel [OF bad])
    then show ?thesis by (simp add: raise_sel)
  next
    case SiglentSDG1000X
    show ?thesis
    proof (intro impI)
      assume "v = SiglentSDG1000X \<longrightarrow>
        (\<forall>ch. c \<noteq> sync_phase ch) \<and> (\<forall>ch p. c \<noteq> get_channel_wave_parameter ch p)"
      with SiglentSDG1000X assms(3) have "out = raise (InvalidChannelNumber (channel_of c))"
        by (simp add: siglent_bad_channel [OF bad])
      then show "result out = Inl (InvalidChannelNumber (channel_of c))
        \<and> calls out = [] \<and> logged out = []"
        by (simp add: raise_sel)
    qed
  qed
  show "v = SiglentSDG1000X \<and> (\<exists>ch. c = sync_phase ch)
          \<longrightarrow> calls out = [Write ''EQPHASE'']
              \<and> result out \<noteq> Inl (InvalidChannelNumber (channel_of c))"
    using assms(3)
    by (auto simp: siglent_sync_phase_def try_write_calls dest: try_write_result)
qed

theorem invalid_channel_rejected_witness:
  "PInt 3 \<noteq> PInt 1 \<and> PInt 3 \<noteq> PInt 2
   \<and> invoke RigolDG1000Z rt0 awg_ok (set_amplitude (PInt 3) (PInt 5) (PAmplitudeUnit VPP))
       = Some (rigol_set_amplitude rt0 awg_ok (PInt 3) (PInt 5) (PAmplitudeUnit VPP))
   \<and> result (rigol_set_amplitude rt0 awg_ok (PInt 3) (PInt 5) (PAmplitudeUnit VPP))
       = Inl (InvalidChannelNumber (PInt 3))
   \<and> calls (rigol_set_amplitude rt0 awg_ok (PInt 3) (PInt 5) (PAmplitudeUnit VPP)) = []
   \<and> logged (rigol_set_amplitude rt0 awg_ok (PInt 3) (PInt 5) (PAmplitudeUnit VPP)) = []"
  using invalid_channel_rejected
          [of "set_amplitude (PInt 3) (PInt 5) (PAmplitudeUnit VPP)" RigolDG1000Z rt0 awg_ok
              "rigol_set_amplitude rt0 awg_ok (PInt 3) (PInt 5) (PAmplitudeUnit VPP)"]
  by simp

text \<open>
  C3 (corrected). The claim: on a well-formed response, \<^verbatim>\<open>get_channel_wave_parameter\<close> returns
  the exact value of each of the eight parameter names, and fails with an error when the
  requested key is absent from the response. The second half fails: the values are read
  with \<^verbatim>\<open>params.get\<close>, so an absent key gives \<^verbatim>\<open>None\<close>. Here the response holds \<^verbatim>\<open>WVTP\<close> and
  \<^verbatim>\<open>FRQ\<close> only and the period is asked for.
\<close>

theorem absent_key_returns_None:
  "awg_query awg_ok ''C1BSWV?'' = Inr ''C1:BSWV WVTP,SINE,FRQ,1000HZ''
   \<and> siglent_get_channel_wave_parameter rt0 awg_ok (PInt 1) (PStr ''period'')
       = \<lparr>result = Inr PNone, calls = [Query ''C1BSWV?''], logged = []\<rparr>"
  by (simp add: siglent_get_channel_wave_parameter_def awg_ok_def Let_def str_int_1
        strip_apostrophes_def apostrophe_def dict_def)

text \<open>
  C3 as amended: given a well-formed response with known key/value pairs (a header without
  a space, one space, then the keys and values joined by commas; no comma, space or
  apostrophe inside a key or value; no key twice), \<^verbatim>\<open>get_channel_wave_parameter\<close> returns, for
  each of the eight parameter names, the exact value of its key when the response holds the
  key, and \<^verbatim>\<open>None\<close>, without an error, when the key is absent from the response. It raises
  (a \<^verbatim>\<open>KeyError\<close>) for a parameter name outside the eight. The query is the only call made
  to the transport.
\<close>

theorem get_channel_wave_parameter_round_trip:
  assumes "well_formed header kvs"
    and "awg_query self (''C'' @ fmt rt channel @ ''BSWV?'') = Inr (response_text header kvs)"
  shows "(parameter_key name = Some key \<and> (key, val) \<in> set kvs \<longrightarrow>
            result (siglent_get_channel_wave_parameter rt self channel (PStr name))
              = Inr (PStr val))
       \<and> (parameter_key name = Some key \<and> key \<notin> fst ` set kvs \<longrightarrow>
            result (siglent_get_channel_wave_parameter rt self channel (PStr name))
              = Inr PNone)
       \<and> (parameter_key name = None \<longrightarrow>
            result (siglent_get_channel_wave_parameter rt self channel (PStr name))
              = Inl (KeyError (PStr name)))
       \<and> calls (siglent_get_channel_wave_parameter rt self channel (PStr name))
            = [Query (''C'' @ fmt rt channel @ ''BSWV?'')]"
proof -
  let ?params = "map_of kvs"
  let ?table = "[(''waveform_type'', ?params ''WVTP''), (''frequency'', ?params ''FRQ''),
                 (''period'', ?params ''PERI''), (''amplitude'', ?params ''AMP''),
                 (''offset'', ?params ''OFST''), (''high_level'', ?params ''HLEV''),
                 (''low_level'', ?params ''LLEV''), (''phase'', ?params ''PHSE'')]"
  have run: "siglent_get_channel_wave_parameter rt self channel (PStr name)
      = (case map_of ?table name of
           Some v \<Rightarrow> \<lparr>result = Inr (str_or_None v),
                       calls = [Query (''C'' @ fmt rt channel @ ''BSWV?'')], logged = []\<rparr>
         | None \<Rightarrow> log_and_reraise rt (''C'' @ fmt rt channel @ ''BSWV?'')
                     (KeyError (PStr name)))"
    unfolding siglent_get_channel_wave_parameter_def Let_def
    by (simp only: assms(2) sum.case parse_well_formed [OF assms(1)] list.case pyval.case)
  have hit: "parameter_key name = Some key \<Longrightarrow>
      result (siglent_get_channel_wave_parameter rt self channel (PStr name))
        = Inr (str_or_None (?params key))"
    by (simp only: run result_dict_lookup option.case) simp
  have miss: "parameter_key name = None \<Longrightarrow> map_of ?table name = None"
    by (simp add: parameter_key_def split: if_splits)
  from assms(1) have d: "distinct (map fst kvs)"
    by (simp add: well_formed_def)
  have a: "parameter_key name = Some key \<and> (key, val) \<in> set kvs \<longrightarrow>
            result (siglent_get_channel_wave_parameter rt self channel (PStr name))
              = Inr (PStr val)"
    using d by (auto simp: hit)
  have b: "parameter_key name = Some key \<and> key \<notin> fst ` set kvs \<longrightarrow>
            result (siglent_get_channel_wave_parameter rt self channel (PStr name))
              = Inr PNone"
    by (simp add: hit map_of_eq_None_iff [THEN iffD2])
  have c: "parameter_key name = None \<longrightarrow>
            result (siglent_get_channel_wave_parameter rt self channel (PStr name))
              = Inl (KeyError (PStr name))"
  proof
    assume "parameter_key name = None"
    then have "map_of ?table name = None"
      by (rule miss)
    then show "result (siglent_get_channel_wave_parameter rt self channel (PStr name))
        = Inl (KeyError (PStr name))"
      by (simp only: run option.case) (simp add: log_and_reraise_def)
  qed
  from a b c show ?thesis
    by (simp add: get_channel_wave_parameter_calls)
qed

theorem get_channel_wave_parameter_round_trip_witness:
  "well_formed ''C1:BSWV'' [(''WVTP'', ''SINE''), (''FRQ'', ''1000HZ'')]
   \<and> awg_query awg_ok (''C'' @ fmt rt0 (PInt 1) @ ''BSWV?'')
       = Inr (response_text ''C1:BSWV'' [(''WVTP'', ''SINE''), (''FRQ'', ''1000HZ'')])
   \<and> result (siglent_get_channel_wave_parameter rt0 awg_ok (PInt 1) (PStr ''frequency''))
       = Inr (PStr ''1000HZ'')
   \<and> result (siglent_get_channel_wave_parameter rt0 awg_ok (PInt 1) (PStr ''waveform_type''))
       = Inr (PStr ''SINE'')
   \<and> result (siglent_get_channel_wave_parameter rt0 awg_ok (PInt 1) (PStr ''phase''))
       = Inr PNone
   \<and> result (siglent_get_channel_wave_parameter rt0 awg_ok (PInt 1) (PStr ''volume''))
       = Inl (KeyError (PStr ''volume''))"
  using get_channel_wave_parameter_round_trip
          [where header = "''C1:BSWV''" and kvs = "[(''WVTP'', ''SINE''), (''FRQ'', ''1000HZ'')]"
             and self = awg_ok and rt = rt0 and channel = "PInt 1" and name = "''frequency''"
             and key = "''FRQ''" and val = "''1000HZ''"]
        get_channel_wave_parameter_round_trip
          [where header = "''C1:BSWV''" and kvs = "[(''WVTP'', ''SINE''), (''FRQ'', ''1000HZ'')]"
             and self = awg_ok and rt = rt0 and channel = "PInt 1"
             and name = "''waveform_type''" and key = "''WVTP''" and val = "''SINE''"]
        get_channel_wave_parameter_round_trip
          [where header = "''C1:BSWV''" and kvs = "[(''WVTP'', ''SINE''), (''FRQ'', ''1000HZ'')]"
             and self = awg_ok and rt = rt0 and channel = "PInt 1" and name = "''phase''"
             and key = "''PHSE''" and val = "''0''"]
        get_channel_wave_parameter_round_trip
          [where header = "''C1:BSWV''" and kvs = "[(''WVTP'', ''SINE''), (''FRQ'', ''1000HZ'')]"
             and self = awg_ok and rt = rt0 and channel = "PInt 1" and name = "''volume''"
             and key = "''PHSE''" and val = "''0''"]
  by (simp add: well_formed_def plain_def apostrophe_def response_text_def awg_ok_def
        parameter_key_def)

text \<open>
  C4. With frequency 2 and unit \<^verbatim>\<open>KHZ\<close> on a valid channel, \<^verbatim>\<open>SiglentSDG1000X.set_frequency\<close>
  writes \<^verbatim>\<open>C{ch}:BSWV FRQ,2000\<close> (base unit, no suffix) and \<^verbatim>\<open>RigolDG1000Z.set_frequency\<close>
  writes \<^verbatim>\<open>SOUR{ch}:FREQ 2KHZ\<close>. In general the Siglent class sends the value times 1 for
  \<^verbatim>\<open>HZ\<close>, times 1000 for \<^verbatim>\<open>KHZ\<close> and times 1000000 for \<^verbatim>\<open>MHZ\<close>: exactly for an \<^verbatim>\<open>int\<close>, and
  for a \<^verbatim>\<open>float\<close> the value itself for \<^verbatim>\<open>HZ\<close> and otherwise the runtime's product with that
  factor.
\<close>

theorem frequency_unit_conversion:
  assumes "channel = PInt 1 \<or> channel = PInt 2"
  shows "calls (siglent_set_frequency rt self channel (PInt 2) (PFrequencyUnit KHZ))
           = [Write (''C'' @ fmt rt channel @ '':BSWV FRQ,2000'')]
       \<and> calls (rigol_set_frequency rt self channel (PInt 2) (PFrequencyUnit KHZ))
           = [Write (''SOUR'' @ fmt rt channel @ '':FREQ 2KHZ'')]
       \<and> (0 \<le> f \<longrightarrow>
            calls (siglent_set_frequency rt self channel (PInt f) (PFrequencyUnit u))
              = [Write (''C'' @ fmt rt channel @ '':BSWV FRQ,''
                          @ str_int (f * spec_frequency_factor u))])
       \<and> (\<not> num_lt x (Fin 0) \<longrightarrow>
            calls (siglent_set_frequency rt self channel (PFloat x) (PFrequencyUnit u))
              = [Write (''C'' @ fmt rt channel @ '':BSWV FRQ,''
                          @ float_str rt
                              (if u = HZ then x else float_mul rt x (spec_frequency_factor u)))])"
proof -
  have ok: "\<not> bad_channel channel"
    using assms by (auto simp: bad_channel_iff)
  have s2: "str_int 2 = ''2''" "str_int 2000 = ''2000''"
    by (simp_all add: str_int_def str_nat.simps digit_char_def)
  have a: "calls (siglent_set_frequency rt self channel (PInt 2) (PFrequencyUnit KHZ))
           = [Write (''C'' @ fmt rt channel @ '':BSWV FRQ,2000'')]"
    by (simp add: siglent_set_frequency_def ok try_write_calls s2)
  have b: "calls (rigol_set_frequency rt self channel (PInt 2) (PFrequencyUnit KHZ))
           = [Write (''SOUR'' @ fmt rt channel @ '':FREQ 2KHZ'')]"
    by (simp add: rigol_set_frequency_def ok try_write_calls s2)
  have c: "0 \<le> f \<longrightarrow>
            calls (siglent_set_frequency rt self channel (PInt f) (PFrequencyUnit u))
              = [Write (''C'' @ fmt rt channel @ '':BSWV FRQ,''
                          @ str_int (f * spec_frequency_factor u))]"
    by (cases u) (simp_all add: siglent_set_frequency_def ok try_write_calls)
  have d: "\<not> num_lt x (Fin 0) \<longrightarrow>
            calls (siglent_set_frequency rt self channel (PFloat x) (PFrequencyUnit u))
              = [Write (''C'' @ fmt rt channel @ '':BSWV FRQ,''
                          @ float_str rt
                              (if u = HZ then x else float_mul rt x (spec_frequency_factor u)))]"
    by (cases u) (simp_all add: siglent_set_frequency_def ok try_write_calls)
  from a b c d show ?thesis by blast
qed

theorem frequency_unit_conversion_witness:
  "calls (siglent_set_frequency rt0 awg_ok (PInt 1) (PInt 2) (PFrequencyUnit KHZ))
     = [Write ''C1:BSWV FRQ,2000'']
   \<and> calls (rigol_set_frequency rt0 awg_ok (PInt 1) (PInt 2) (PFrequencyUnit KHZ))
     = [Write ''SOUR1:FREQ 2KHZ'']
   \<and> calls (siglent_set_frequency rt0 awg_ok (PInt 1) (PInt 3) (PFrequencyUnit MHZ))
     = [Write ''C1:BSWV FRQ,3000000'']
   \<and> calls (siglent_set_frequency rt0 awg_ok (PInt 1) (PFloat (Fin 2.5)) (PFrequencyUnit HZ))
     = [Write ''C1:BSWV FRQ,2.5'']"
  using frequency_unit_conversion
          [where channel = "PInt 1" and rt = rt0 and self = awg_ok and f = 3 and u = MHZ
             and x = "Fin 2.5"]
        frequency_unit_conversion
          [where channel = "PInt 1" and rt = rt0 and self = awg_ok and f = 3 and u = HZ
             and x = "Fin 2.5"]
  by (simp add: str_int_def str_nat.simps digit_char_def rt0_def)

text \<open>
  C5. For every operation of both classes: when the call ends in an exception of an
  argument check (\<^verbatim>\<open>InvalidChannelNumber\<close>, \<^verbatim>\<open>TypeError\<close>, \<^verbatim>\<open>ValueError\<close>: invalid channel, wrong
  argument type, out-of-range value, wrong enumeration), neither \<^verbatim>\<open>write\<close> nor \<^verbatim>\<open>query\<close> of
  the transport has been invoked, so no command reached the device (and nothing was logged).
\<close>

theorem validation_precedes_transport:
  assumes "invoke v rt self c = Some out"
    and "result out = Inl e"
    and "validation_error e"
  shows "calls out = [] \<and> logged out = []"
proof (cases "\<exists>ch p. c = get_channel_wave_parameter ch p")
  case True
  with assms show ?thesis
    by (cases v) (auto dest: get_channel_wave_parameter_result)
next
  case False
  with assms(1) have "checks_then_writes self (reraises c) out"
    by (cases v) (auto intro: rigol_ctw siglent_ctw)
  then show ?thesis
    using assms(2,3) by (rule ctw_validation)
qed

theorem validation_precedes_transport_witness:
  "invoke SiglentSDG1000X rt0 awg_ok (set_phase (PInt 1) (PInt 400))
     = Some (siglent_set_phase rt0 awg_ok (PInt 1) (PInt 400))
   \<and> result (siglent_set_phase rt0 awg_ok (PInt 1) (PInt 400))
       = Inl (ValueError (quoted ''phase'' @ '' must be between 0 and 360''))
   \<and> validation_error (ValueError (quoted ''phase'' @ '' must be between 0 and 360''))
   \<and> calls (siglent_set_phase rt0 awg_ok (PInt 1) (PInt 400)) = []
   \<and> logged (siglent_set_phase rt0 awg_ok (PInt 1) (PInt 400)) = []"
  using validation_precedes_transport
          [of SiglentSDG1000X rt0 awg_ok "set_phase (PInt 1) (PInt 400)"
              "siglent_set_phase rt0 awg_ok (PInt 1) (PInt 400)"
              "ValueError (quoted ''phase'' @ '' must be between 0 and 360'')"]
  by (simp add: siglent_set_phase_def bad_channel_iff raise_sel)

text \<open>
  C6. On a valid channel, \<^verbatim>\<open>set_amplitude\<close> of both classes raises \<^verbatim>\<open>ValueError\<close> for every
  \<^verbatim>\<open>int\<close> or \<^verbatim>\<open>float\<close> amplitude outside the closed interval from -10 to 10 (the infinities
  and NaN included) and sends no command; every amplitude inside the interval, the bounds
  -10 and 10 among them, is accepted when the unit is an \<^verbatim>\<open>AmplitudeUnit\<close>: the command is
  written, and the call returns unless the transport fails.
\<close>

theorem amplitude_range:
  assumes "channel = PInt 1 \<or> channel = PInt 2"
    and "invoke v rt self (set_amplitude channel amplitude unit) = Some out"
  shows "((\<exists>i. amplitude = PInt i \<and> (i < - 10 \<or> 10 < i))
          \<or> (\<exists>x. amplitude = PFloat (Fin x) \<and> (x < - 10 \<or> 10 < x))
          \<or> amplitude = PFloat PosInf \<or> amplitude = PFloat NegInf \<or> amplitude = PFloat NaN
          \<longrightarrow> result out = Inl (ValueError (quoted ''amplitude'' @ '' must be between -/+ 10''))
              \<and> calls out = [])
       \<and> (((\<exists>i. amplitude = PInt i \<and> - 10 \<le> i \<and> i \<le> 10)
           \<or> (\<exists>x. amplitude = PFloat (Fin x) \<and> - 10 \<le> x \<and> x \<le> 10))
          \<and> unit = PAmplitudeUnit u
          \<longrightarrow> calls out
                = [Write (if v = RigolDG1000Z
                          then ''SOUR'' @ fmt rt channel @ '':VOLT '' @ fmt rt amplitude
                                 @ AmplitudeUnit_value u
                          else ''C'' @ fmt rt channel @ '':BSWV AMP,'' @ fmt rt amplitude)]
              \<and> (\<forall>e. result out = Inl e \<longrightarrow> \<not> validation_error e)
              \<and> (awg_write self (if v = RigolDG1000Z
                          then ''SOUR'' @ fmt rt channel @ '':VOLT '' @ fmt rt amplitude
                                 @ AmplitudeUnit_value u
                          else ''C'' @ fmt rt channel @ '':BSWV AMP,'' @ fmt rt amplitude) = None
                 \<longrightarrow> result out = Inr PNone))"
proof -
  have ok: "\<not> bad_channel channel"
    using assms(1) by (auto simp: bad_channel_iff)
  show ?thesis
  proof (cases v)
    case RigolDG1000Z
    with assms(2) have "out = rigol_set_amplitude rt self channel amplitude unit"
      by simp
    with RigolDG1000Z show ?thesis
      by (auto simp: rigol_set_amplitude_def ok raise_sel try_write_calls try_write_ok
            dest: try_write_not_validation)
  next
    case SiglentSDG1000X
    with assms(2) have "out = siglent_set_amplitude rt self channel amplitude unit"
      by simp
    with SiglentSDG1000X show ?thesis
      by (auto simp: siglent_set_amplitude_def ok raise_sel try_write_calls try_write_ok
            dest: try_write_not_validation)
  qed
qed

theorem amplitude_range_witness:
  "result (rigol_set_amplitude rt0 awg_ok (PInt 1) (PInt 11) (PAmplitudeUnit VPP))
     = Inl (ValueError (quoted ''amplitude'' @ '' must be between -/+ 10''))
   \<and> calls (rigol_set_amplitude rt0 awg_ok (PInt 1) (PInt 11) (PAmplitudeUnit VPP)) = []
   \<and> calls (rigol_set_amplitude rt0 awg_ok (PInt 1) (PInt 10) (PAmplitudeUnit VPP))
       = [Write ''SOUR1:VOLT 10VPP'']
   \<and> result (rigol_set_amplitude rt0 awg_ok (PInt 1) (PInt 10) (PAmplitudeUnit VPP)) = Inr PNone
   \<and> calls (siglent_set_amplitude rt0 awg_ok (PInt 2) (PInt (- 10)) (PAmplitudeUnit VPP))
       = [Write ''C2:BSWV AMP,-10'']
   \<and> result (siglent_set_amplitude rt0 awg_ok (PInt 2) (PInt (- 10)) (PAmplitudeUnit VPP))
       = Inr PNone"
  using amplitude_range
          [of "PInt 1" RigolDG1000Z rt0 awg_ok "PInt 11" "PAmplitudeUnit VPP"
              "rigol_set_amplitude rt0 awg_ok (PInt 1) (PInt 11) (PAmplitudeUnit VPP)" VPP]
        amplitude_range
          [of "PInt 1" RigolDG1000Z rt0 awg_ok "PInt 10" "PAmplitudeUnit VPP"
              "rigol_set_amplitude rt0 awg_ok (PInt 1) (PInt 10) (PAmplitudeUnit VPP)" VPP]
        amplitude_range
          [of "PInt 2" SiglentSDG1000X rt0 awg_ok "PInt (- 10)" "PAmplitudeUnit VPP"
              "siglent_set_amplitude rt0 awg_ok (PInt 2) (PInt (- 10)) (PAmplitudeUnit VPP)" VPP]
  by (simp add: str_int_def str_nat.simps digit_char_def awg_ok_def)

text \<open>
  C7. On a valid channel, \<^verbatim>\<open>set_phase\<close> of both classes raises \<^verbatim>\<open>ValueError\<close> for every \<^verbatim>\<open>int\<close>
  or \<^verbatim>\<open>float\<close> phase whose absolute value is outside the closed interval from 0 to 360
  (the infinities and NaN included) and sends no command; every phase whose absolute value
  is inside the interval, 0 and 360 among them, is accepted: the command is written, and
  the call returns unless the transport fails.
\<close>

theorem phase_range:
  assumes "channel = PInt 1 \<or> channel = PInt 2"
    and "invoke v rt self (set_phase channel phase) = Some out"
  shows "((\<exists>i. phase = PInt i \<and> 360 < \<bar>i\<bar>)
          \<or> (\<exists>x. phase = PFloat (Fin x) \<and> 360 < \<bar>x\<bar>)
          \<or> phase = PFloat PosInf \<or> phase = PFloat NegInf \<or> phase = PFloat NaN
          \<longrightarrow> result out = Inl (ValueError (quoted ''phase'' @ '' must be between 0 and 360''))
              \<and> calls out = [])
       \<and> ((\<exists>i. phase = PInt i \<and> \<bar>i\<bar> \<le> 360) \<or> (\<exists>x. phase = PFloat (Fin x) \<and> \<bar>x\<bar> \<le> 360)
          \<longrightarrow> calls out
                = [Write (if v = RigolDG1000Z
                          then ''SOUR'' @ fmt rt channel @ '':PHAS '' @ fmt rt phase
                          else ''C'' @ fmt rt channel @ '':BSWV PHSE,'' @ fmt rt phase)]
              \<and> (\<forall>e. result out = Inl e \<longrightarrow> \<not> validation_error e)
              \<and> (awg_write self (if v = RigolDG1000Z
                          then ''SOUR'' @ fmt rt channel @ '':PHAS '' @ fmt rt phase
                          else ''C'' @ fmt rt channel @ '':BSWV PHSE,'' @ fmt rt phase) = None
                 \<longrightarrow> result out = Inr PNone))"
proof -
  have ok: "\<not> bad_channel channel"
    using assms(1) by (auto simp: bad_channel_iff)
  show ?thesis
  proof (cases v)
    case RigolDG1000Z
    with assms(2) have "out = rigol_set_phase rt self channel phase"
      by simp
    with RigolDG1000Z show ?thesis
      by (auto simp: rigol_set_phase_def abs_of_int_le_360 ok raise_sel try_write_calls try_write_ok
            dest: try_write_not_validation)
  next
    case SiglentSDG1000X
    with assms(2) have "out = siglent_set_phase rt self channel phase"
      by simp
    with SiglentSDG1000X show ?thesis
      by (auto simp: siglent_set_phase_def abs_of_int_le_360 ok raise_sel try_write_calls try_write_ok
            dest: try_write_not_validation)
  qed
qed

theorem phase_range_witness:
  "result (rigol_set_phase rt0 awg_ok (PInt 1) (PInt (- 361)))
     = Inl (ValueError (quoted ''phase'' @ '' must be between 0 and 360''))
   \<and> calls (rigol_set_phase rt0 awg_ok (PInt 1) (PInt (- 361))) = []
   \<and> calls (rigol_set_phase rt0 awg_ok (PInt 1) (PInt 0)) = [Write ''SOUR1:PHAS 0'']
   \<and> result (rigol_set_phase rt0 awg_ok (PInt 1) (PInt 0)) = Inr PNone
   \<and> calls (siglent_set_phase rt0 awg_ok (PInt 2) (PInt 360)) = [Write ''C2:BSWV PHSE,360'']
   \<and> result (siglent_set_phase rt0 awg_ok (PInt 2) (PInt 360)) = Inr PNone"
  using phase_range
          [of "PInt 1" RigolDG1000Z rt0 awg_ok "PInt (- 361)"
              "rigol_set_phase rt0 awg_ok (PInt 1) (PInt (- 361))"]
        phase_range
          [of "PInt 1" RigolDG1000Z rt0 awg_ok "PInt 0"
              "rigol_set_phase rt0 awg_ok (PInt 1) (PInt 0)"]
        phase_range
          [of "PInt 2" SiglentSDG1000X rt0 awg_ok "PInt 360"
              "siglent_set_phase rt0 awg_ok (PInt 2) (PInt 360)"]
  by (simp add: str_int_def str_nat.simps digit_char_def awg_ok_def)

text \<open>
  C8. With the infinite/high-impedance \<^verbatim>\<open>OutputLoad\<close> sentinel on a valid channel,
  \<^verbatim>\<open>RigolDG1000Z.set_output_load\<close> writes \<^verbatim>\<open>OUTP{ch}:LOAD INF\<close> and
  \<^verbatim>\<open>SiglentSDG1000X.set_output_load\<close> writes \<^verbatim>\<open>C{ch}:OUTP LOAD,HZ\<close>: each class its own token,
  the two tokens different, and the same for either member of \<^verbatim>\<open>OutputLoad\<close>.
\<close>

theorem output_load_sentinel:
  assumes "channel = PInt 1 \<or> channel = PInt 2"
    and "load = POutputLoad Load_HZ \<or> load = POutputLoad Load_INF"
  shows "calls (rigol_set_output_load rt self channel load)
           = [Write (''OUTP'' @ fmt rt channel @ '':LOAD '' @ ''INF'')]
       \<and> calls (siglent_set_output_load rt self channel load)
           = [Write (''C'' @ fmt rt channel @ '':OUTP LOAD,'' @ ''HZ'')]
       \<and> ''INF'' \<noteq> ''HZ''"
  using assms
  by (auto simp: rigol_set_output_load_def siglent_set_output_load_def bad_channel_iff
        try_write_calls)

theorem output_load_sentinel_witness:
  "calls (rigol_set_output_load rt0 awg_ok (PInt 1) (POutputLoad Load_INF))
     = [Write ''OUTP1:LOAD INF'']
   \<and> calls (siglent_set_output_load rt0 awg_ok (PInt 1) (POutputLoad Load_INF))
     = [Write ''C1:OUTP LOAD,HZ'']
   \<and> calls (rigol_set_output_load rt0 awg_ok (PInt 2) (POutputLoad Load_HZ))
     = [Write ''OUTP2:LOAD INF'']
   \<and> calls (siglent_set_output_load rt0 awg_ok (PInt 2) (POutputLoad Load_HZ))
     = [Write ''C2:OUTP LOAD,HZ'']"
  using output_load_sentinel [of "PInt 1" "POutputLoad Load_INF" rt0 awg_ok]
        output_load_sentinel [of "PInt 2" "POutputLoad Load_HZ" rt0 awg_ok]
  by (simp add: str_int_1 str_int_2)

text \<open>
  C9. For each symbolic parameter (the amplitude unit, the frequency unit, the waveform
  type, the burst mode, the burst trigger source) and each class, a value that is not a
  member of the enumeration the class expects there (a \<^verbatim>\<open>WaveformType\<close> as burst mode, a
  \<^verbatim>\<open>BurstModeRigol\<close> for the Siglent class, a string, a number) is never turned into a
  command: the call ends in an exception of the argument checks and nothing is written.
  When the arguments checked before it are valid (the channel, and the number the unit
  belongs to), that exception is the \<^verbatim>\<open>TypeError\<close> whose message names the parameter and the
  expected enumeration.
\<close>

theorem wrong_enumeration_rejected:
  assumes "invoke v rt self c = Some out"
  shows "(c = set_amplitude channel amplitude x \<and> (\<forall>u. x \<noteq> PAmplitudeUnit u) \<longrightarrow>
            rejected_by_check out
            \<and> ((channel = PInt 1 \<or> channel = PInt 2)
                \<and> (\<exists>a. as_number amplitude = Some a \<and> num_le (Fin (- 10)) a \<and> num_le a (Fin 10))
               \<longrightarrow> result out = Inl (TypeError
                      (must_be_enum_have_you ''unit'' ''AmplitudeUnit'' ''AmplitudeType''))))
       \<and> (c = set_frequency channel frequency x \<and> (\<forall>u. x \<noteq> PFrequencyUnit u) \<longrightarrow>
            rejected_by_check out
            \<and> ((channel = PInt 1 \<or> channel = PInt 2)
                \<and> (\<exists>f. as_number frequency = Some f \<and> \<not> num_lt f (Fin 0))
               \<longrightarrow> result out = Inl (TypeError
                      (must_be_enum_did_you ''unit'' ''FrequencyUnit'' ''FrequencyUnit''))))
       \<and> (c = set_waveform channel x \<and> (\<forall>w. x \<noteq> PWaveformType w) \<longrightarrow>
            rejected_by_check out
            \<and> (channel = PInt 1 \<or> channel = PInt 2
               \<longrightarrow> result out = Inl (TypeError
                      (must_be_enum_have_you ''waveform_type'' ''WaveformType'' ''WaveformType''))))
       \<and> (c = set_burst_mode channel x \<and> v = RigolDG1000Z \<and> (\<forall>m. x \<noteq> PBurstModeRigol m) \<longrightarrow>
            rejected_by_check out
            \<and> (channel = PInt 1 \<or> channel = PInt 2
               \<longrightarrow> result out = Inl (TypeError
                      (must_be_enum_have_you ''burst_mode'' ''BurstModeRigol'' ''BurstModeRigol''))))
       \<and> (c = set_burst_mode channel x \<and> v = SiglentSDG1000X
            \<and> (\<forall>m. x \<noteq> PBurstModeSiglent m) \<longrightarrow>
            rejected_by_check out
            \<and> (channel = PInt 1 \<or> channel = PInt 2
               \<longrightarrow> result out = Inl (TypeError
                      (must_be_enum_have_you ''burst_mode'' ''BurstModeSiglent''
                         ''BurstModeSiglent''))))
       \<and> (c = set_burst_trigger_source channel x \<and> (\<forall>s. x \<noteq> PBurstTriggerSource s) \<longrightarrow>
            rejected_by_check out
            \<and> (channel = PInt 1 \<or> channel = PInt 2
               \<longrightarrow> result out = Inl (TypeError
                      (must_be_enum_have_you ''trigger_source'' ''BurstTriggerSource''
                         ''BurstTriggerSource''))))"
proof (intro conjI impI; elim conjE exE)
  assume "c = set_amplitude channel amplitude x" "\<forall>u. x \<noteq> PAmplitudeUnit u"
  with assms show "rejected_by_check out"
    by (cases v)
       (auto simp: rigol_set_amplitude_wrong_unit(1) siglent_set_amplitude_wrong_unit(1))
next
  fix a
  assume "c = set_amplitude channel amplitude x" "\<forall>u. x \<noteq> PAmplitudeUnit u"
    "channel = PInt 1 \<or> channel = PInt 2"
    "as_number amplitude = Some a" "num_le (Fin (- 10)) a" "num_le a (Fin 10)"
  with assms
  show "result out
      = Inl (TypeError (must_be_enum_have_you ''unit'' ''AmplitudeUnit'' ''AmplitudeType''))"
    by (cases v)
       (auto simp: rigol_set_amplitude_wrong_unit(2) siglent_set_amplitude_wrong_unit(2)
          bad_channel_iff raise_sel)
next
  assume "c = set_frequency channel frequency x" "\<forall>u. x \<noteq> PFrequencyUnit u"
  with assms show "rejected_by_check out"
    by (cases v)
       (auto simp: rigol_set_frequency_wrong_unit(1) siglent_set_frequency_wrong_unit(1))
next
  fix f
  assume "c = set_frequency channel frequency x" "\<forall>u. x \<noteq> PFrequencyUnit u"
    "channel = PInt 1 \<or> channel = PInt 2"
    "as_number frequency = Some f" "\<not> num_lt f (Fin 0)"
  with assms
  show "result out
      = Inl (TypeError (must_be_enum_did_you ''unit'' ''FrequencyUnit'' ''FrequencyUnit''))"
    by (cases v)
       (auto simp: rigol_set_frequency_wrong_unit(2) siglent_set_frequency_wrong_unit(2)
          bad_channel_iff raise_sel)
next
  assume "c = set_waveform channel x" "\<forall>w. x \<noteq> PWaveformType w"
  with assms show "rejected_by_check out"
    by (cases v)
       (auto simp: rigol_set_waveform_wrong_type(1) siglent_set_waveform_wrong_type(1))
next
  assume "c = set_waveform channel x" "\<forall>w. x \<noteq> PWaveformType w"
    "channel = PInt 1 \<or> channel = PInt 2"
  with assms
  show "result out = Inl (TypeError
      (must_be_enum_have_you ''waveform_type'' ''WaveformType'' ''WaveformType''))"
    by (cases v)
       (auto simp: rigol_set_waveform_wrong_type(2) siglent_set_waveform_wrong_type(2)
          bad_channel_iff raise_sel)
next
  assume "c = set_burst_mode channel x" "v = RigolDG1000Z" "\<forall>m. x \<noteq> PBurstModeRigol m"
  with assms show "rejected_by_check out"
    by (auto simp: rigol_set_burst_mode_wrong_type(1))
next
  assume "c = set_burst_mode channel x" "v = RigolDG1000Z" "\<forall>m. x \<noteq> PBurstModeRigol m"
    "channel = PInt 1 \<or> channel = PInt 2"
  with assms
  show "result out = Inl (TypeError
      (must_be_enum_have_you ''burst_mode'' ''BurstModeRigol'' ''BurstModeRigol''))"
    by (auto simp: rigol_set_burst_mode_wrong_type(2) bad_channel_iff raise_sel)
next
  assume "c = set_burst_mode channel x" "v = SiglentSDG1000X" "\<forall>m. x \<noteq> PBurstModeSiglent m"
  with assms show "rejected_by_check out"
    by (auto simp: siglent_set_burst_mode_wrong_type(1))
next
  assume "c = set_burst_mode channel x" "v = SiglentSDG1000X" "\<forall>m. x \<noteq> PBurstModeSiglent m"
    "channel = PInt 1 \<or> channel = PInt 2"
  with assms
  show "result out = Inl (TypeError
      (must_be_enum_have_you ''burst_mode'' ''BurstModeSiglent'' ''BurstModeSiglent''))"
    by (auto simp: siglent_set_burst_mode_wrong_type(2) bad_channel_iff raise_sel)
next
  assume "c = set_burst_trigger_source channel x" "\<forall>s. x \<noteq> PBurstTriggerSource s"
  with assms show "rejected_by_check out"
    by (cases v)
       (auto simp: rigol_set_burst_trigger_source_wrong_type(1)
          siglent_set_burst_trigger_source_wrong_type(1))
next
  assume "c = set_burst_trigger_source channel x" "\<forall>s. x \<noteq> PBurstTriggerSource s"
    "channel = PInt 1 \<or> channel = PInt 2"
  with assms
  show "result out = Inl (TypeError
      (must_be_enum_have_you ''trigger_source'' ''BurstTriggerSource'' ''BurstTriggerSource''))"
    by (cases v)
       (auto simp: rigol_set_burst_trigger_source_wrong_type(2)
          siglent_set_burst_trigger_source_wrong_type(2) bad_channel_iff raise_sel)
qed

theorem wrong_enumeration_rejected_witness:
  "rejected_by_check (rigol_set_burst_mode rt0 awg_ok (PInt 1) (PWaveformType SINE))
   \<and> result (rigol_set_burst_mode rt0 awg_ok (PInt 1) (PWaveformType SINE))
       = Inl (TypeError (quoted ''burst_mode'' @ '' must be enum of type BurstModeRigol''
                @ ''. Hint: have you forgotten to import '' @ quoted ''BurstModeRigol''
                @ '' from '' @ quoted ''pyawg'' @ ''?''))
   \<and> rejected_by_check
       (siglent_set_burst_mode rt0 awg_ok (PInt 1) (PBurstModeRigol TRIGGERED))
   \<and> result (siglent_set_burst_mode rt0 awg_ok (PInt 1) (PBurstModeRigol TRIGGERED))
       = Inl (TypeError (quoted ''burst_mode'' @ '' must be enum of type BurstModeSiglent''
                @ ''. Hint: have you forgotten to import '' @ quoted ''BurstModeSiglent''
                @ '' from '' @ quoted ''pyawg'' @ ''?''))
   \<and> rejected_by_check
       (siglent_set_amplitude rt0 awg_ok (PInt 1) (PInt 5) (PFrequencyUnit KHZ))"
  using wrong_enumeration_rejected
          [where v = RigolDG1000Z and rt = rt0 and self = awg_ok
             and c = "set_burst_mode (PInt 1) (PWaveformType SINE)"
             and out = "rigol_set_burst_mode rt0 awg_ok (PInt 1) (PWaveformType SINE)"
             and channel = "PInt 1" and x = "PWaveformType SINE"]
        wrong_enumeration_rejected
          [where v = SiglentSDG1000X and rt = rt0 and self = awg_ok
             and c = "set_burst_mode (PInt 1) (PBurstModeRigol TRIGGERED)"
             and out = "siglent_set_burst_mode rt0 awg_ok (PInt 1) (PBurstModeRigol TRIGGERED)"
             and channel = "PInt 1" and x = "PBurstModeRigol TRIGGERED"]
        wrong_enumeration_rejected
          [where v = SiglentSDG1000X and rt = rt0 and self = awg_ok
             and c = "set_amplitude (PInt 1) (PInt 5) (PFrequencyUnit KHZ)"
             and out = "siglent_set_amplitude rt0 awg_ok (PInt 1) (PInt 5) (PFrequencyUnit KHZ)"
             and channel = "PInt 1" and amplitude = "PInt 5" and x = "PFrequencyUnit KHZ"]
  by (simp add: must_be_enum_have_you_def)

text \<open>
  C10 (corrected). The claim: because the checks test the exact type, a \<^verbatim>\<open>bool\<close> is always
  rejected: a \<^verbatim>\<open>bool\<close> channel raises \<^verbatim>\<open>InvalidChannelNumber\<close> and a \<^verbatim>\<open>bool\<close> amplitude,
  frequency, delay, period, phase or offset raises \<^verbatim>\<open>TypeError\<close>, in every operation of both
  classes. It fails at \<^verbatim>\<open>SiglentSDG1000X.sync_phase\<close>, which has no channel check: with the
  channel \<^verbatim>\<open>True\<close> the command is written and the call returns.
\<close>

theorem siglent_sync_phase_accepts_bool_channel:
  "invoke SiglentSDG1000X rt0 awg_ok (sync_phase (PBool True))
     = Some \<lparr>result = Inr PNone, calls = [Write ''EQPHASE''],
             logged = [(DEBUG, ''Phases of both the channels have been synchronized'')]\<rparr>"
  by (simp add: siglent_sync_phase_def try_write_def awg_ok_def)

text \<open>
  C10 as amended: a \<^verbatim>\<open>bool\<close> channel raises \<^verbatim>\<open>InvalidChannelNumber\<close> in every operation of
  \<^verbatim>\<open>RigolDG1000Z\<close> and in every operation of \<^verbatim>\<open>SiglentSDG1000X\<close> other than \<^verbatim>\<open>sync_phase\<close> and
  \<^verbatim>\<open>get_channel_wave_parameter\<close>; and with a valid channel, a \<^verbatim>\<open>bool\<close> amplitude, frequency,
  delay, period, phase or offset raises the \<^verbatim>\<open>TypeError\<close> of the type check, in both classes.
  In either case no command is handed to the transport.
\<close>

theorem bool_argument_rejected:
  assumes "invoke v rt self c = Some out"
  shows "(channel_of c = PBool b
          \<and> (v = SiglentSDG1000X \<longrightarrow>
                (\<forall>ch. c \<noteq> sync_phase ch) \<and> (\<forall>ch p. c \<noteq> get_channel_wave_parameter ch p))
          \<longrightarrow> result out = Inl (InvalidChannelNumber (PBool b)) \<and> calls out = [])
       \<and> ((channel = PInt 1 \<or> channel = PInt 2)
          \<and> (c = set_amplitude channel (PBool b) unit \<and> name = ''amplitude''
             \<or> c = set_frequency channel (PBool b) unit \<and> name = ''frequency''
             \<or> c = set_burst_delay channel (PBool b) \<and> name = ''delay''
             \<or> c = set_burst_period channel (PBool b) \<and> name = ''period''
             \<or> c = set_phase channel (PBool b) \<and> name = ''phase''
             \<or> c = set_offset channel (PBool b) \<and> name = ''offset_voltage'')
          \<longrightarrow> result out = Inl (TypeError (must_be_float_or_int name (PBool b)))
              \<and> calls out = [])"
proof (intro conjI impI)
  assume a: "channel_of c = PBool b
          \<and> (v = SiglentSDG1000X \<longrightarrow>
                (\<forall>ch. c \<noteq> sync_phase ch) \<and> (\<forall>ch p. c \<noteq> get_channel_wave_parameter ch p))"
  then have bad: "bad_channel (channel_of c)"
    by (simp add: bad_channel_iff)
  have "out = raise (InvalidChannelNumber (channel_of c))"
  proof (cases v)
    case RigolDG1000Z
    with assms have "rigol rt self c = Some out" by simp
    with bad show ?thesis by (rule rigol_bad_channel)
  next
    case SiglentSDG1000X
    with assms have "siglent rt self c = Some out" by simp
    with bad show ?thesis using a SiglentSDG1000X by (intro siglent_bad_channel) auto
  qed
  with a show "result out = Inl (InvalidChannelNumber (PBool b))" and "calls out = []"
    by (simp_all add: raise_sel)
next
  assume a: "(channel = PInt 1 \<or> channel = PInt 2)
          \<and> (c = set_amplitude channel (PBool b) unit \<and> name = ''amplitude''
             \<or> c = set_frequency channel (PBool b) unit \<and> name = ''frequency''
             \<or> c = set_burst_delay channel (PBool b) \<and> name = ''delay''
             \<or> c = set_burst_period channel (PBool b) \<and> name = ''period''
             \<or> c = set_phase channel (PBool b) \<and> name = ''phase''
             \<or> c = set_offset channel (PBool b) \<and> name = ''offset_voltage'')"
  from a assms have "out = raise (TypeError (must_be_float_or_int name (PBool b)))"
    by (cases v)
       (auto simp: bad_channel_iff rigol_set_amplitude_def rigol_set_frequency_def rigol_set_burst_delay_def
          rigol_set_burst_period_def rigol_set_phase_def rigol_set_offset_def
          siglent_set_amplitude_def siglent_set_frequency_def siglent_set_burst_delay_def
          siglent_set_burst_period_def siglent_set_phase_def siglent_set_offset_def)
  then show "result out = Inl (TypeError (must_be_float_or_int name (PBool b)))"
    and "calls out = []"
    by (simp_all add: raise_sel)
qed

theorem bool_argument_rejected_witness:
  "invoke RigolDG1000Z rt0 awg_ok (set_amplitude (PInt 1) (PBool True) (PAmplitudeUnit VPP))
     = Some (rigol_set_amplitude rt0 awg_ok (PInt 1) (PBool True) (PAmplitudeUnit VPP))
   \<and> channel_of (set_burst_delay (PBool True) (PInt 0)) = PBool True
   \<and> result (rigol_set_amplitude rt0 awg_ok (PInt 1) (PBool True) (PAmplitudeUnit VPP))
       = Inl (TypeError (quoted ''amplitude'' @ '' must be float or int; received <class ''
                @ quoted ''bool'' @ ''>''))
   \<and> calls (rigol_set_amplitude rt0 awg_ok (PInt 1) (PBool True) (PAmplitudeUnit VPP)) = []
   \<and> result (siglent_set_burst_delay rt0 awg_ok (PBool True) (PInt 0))
       = Inl (InvalidChannelNumber (PBool True))
   \<and> calls (siglent_set_burst_delay rt0 awg_ok (PBool True) (PInt 0)) = []"
  using bool_argument_rejected
          [of RigolDG1000Z rt0 awg_ok "set_amplitude (PInt 1) (PBool True) (PAmplitudeUnit VPP)"
              "rigol_set_amplitude rt0 awg_ok (PInt 1) (PBool True) (PAmplitudeUnit VPP)"
              True "PInt 1" "PAmplitudeUnit VPP" "''amplitude''"]
        bool_argument_rejected
          [of SiglentSDG1000X rt0 awg_ok "set_burst_delay (PBool True) (PInt 0)"
              "siglent_set_burst_delay rt0 awg_ok (PBool True) (PInt 0)"
              True "PInt 1" "PAmplitudeUnit VPP" "''delay''"]
  by (simp add: must_be_float_or_int_def)

end
